theory Spec2Isabelle
  imports Main "HOL-Library.Word"
begin

section \<open>Collaborators: Boost.Asio and the operating system\<close>

text \<open>
  The two transports of the library, \<open>ComSerial\<close> (comserial.cpp) and \<open>ComSocket\<close>
  (comsocket.cpp), are written against Boost.Asio. The library calls are collaborators:
  what each of them answers (an error code, a byte count, a thrown exception) is an
  argument of the modelled method, and every call made on the serial port, the socket,
  the acceptor or the deadline timer is appended to a log kept in the object state, so
  that "without calling the OS write" is a statement about that log.
\<close>

text \<open>\<open>boost::system::error_code\<close>: \<open>if (ec)\<close> is \<open>ec \<noteq> success\<close>.\<close>

datatype error_code =
    success
  | operation_aborted
  | would_block
  | operation_not_supported
  | bad_descriptor
  | invalid_argument
  | system_error nat

datatype os_call =
    serial_port_open | serial_port_close | serial_port_cancel | serial_port_set_option
  | serial_port_read_some | serial_port_write_some
  | serial_port_async_read | serial_port_async_write
  | ioctl_TIOCEXCL | flock_LOCK_EX | ioctl_FIONREAD | ioctl_TIOCOUTQ
  | ClearCommError | PurgeComm | tcflush
  | socket_open | socket_close | socket_cancel | socket_non_blocking
  | socket_read_some | socket_write_some
  | socket_async_read | socket_async_write | socket_async_connect
  | acceptor_open | acceptor_set_option | acceptor_bind | acceptor_listen
  | acceptor_async_accept | acceptor_cancel | acceptor_close
  | timer_async_wait | timer_cancel

text \<open>
  \<open>int ret_code = bytes_transferred\<close> converts a \<open>size_t\<close> to a 32-bit \<open>int\<close>:
  the value is kept modulo \<open>2 ^ 32\<close> and read as two's complement.
\<close>

definition int_of_size_t :: "nat \<Rightarrow> int" where
  "int_of_size_t n = sint (word_of_nat n :: 32 word)"

text \<open>
  \<open>boost::posix_time::time_duration\<close> counts ticks of one microsecond;
  \<open>milliseconds(t)\<close> builds a duration from an \<open>unsigned int\<close> and
  \<open>total_milliseconds()\<close> divides the ticks, truncating towards zero.
\<close>

type_synonym time_duration = int

definition milliseconds :: "32 word \<Rightarrow> time_duration" where
  "milliseconds t = uint t * 1000"

definition total_milliseconds :: "time_duration \<Rightarrow> int" where
  "total_milliseconds d = sgn d * (\<bar>d\<bar> div 1000)"

text \<open>
  The option classes of \<open>boost::asio::serial_port_base\<close>. An option object stores a
  value of a C++ enumeration, that is an integer; the constructors throw
  \<open>std::out_of_range\<close> (here \<open>None\<close>) for a value that is not an enumerator, and
  \<open>character_size\<close> for a size outside 5..8. \<open>baud_rate\<close> accepts every rate.
\<close>

definition stop_bits_one :: int where "stop_bits_one = 0"
definition stop_bits_onepointfive :: int where "stop_bits_onepointfive = 1"
definition stop_bits_two :: int where "stop_bits_two = 2"

definition parity_none :: int where "parity_none = 0"
definition parity_odd :: int where "parity_odd = 1"
definition parity_even :: int where "parity_even = 2"

definition flow_control_none :: int where "flow_control_none = 0"
definition flow_control_software :: int where "flow_control_software = 1"
definition flow_control_hardware :: int where "flow_control_hardware = 2"

definition boost_baud_rate :: "32 word \<Rightarrow> 32 word option" where
  "boost_baud_rate rate = Some rate"

definition boost_character_size :: "32 word \<Rightarrow> 32 word option" where
  "boost_character_size t = (if t < 5 \<or> 8 < t then None else Some t)"

definition boost_stop_bits :: "int \<Rightarrow> int option" where
  "boost_stop_bits t =
     (if t \<noteq> stop_bits_one \<and> t \<noteq> stop_bits_onepointfive \<and> t \<noteq> stop_bits_two
      then None else Some t)"

definition boost_parity :: "int \<Rightarrow> int option" where
  "boost_parity t =
     (if t \<noteq> parity_none \<and> t \<noteq> parity_odd \<and> t \<noteq> parity_even then None else Some t)"

definition boost_flow_control :: "int \<Rightarrow> int option" where
  "boost_flow_control t =
     (if t \<noteq> flow_control_none \<and> t \<noteq> flow_control_software \<and> t \<noteq> flow_control_hardware
      then None else Some t)"

text \<open>
  One run of \<open>io_service::run\<close> with two outstanding actions, the I/O action and the
  deadline timer. Either the action completes first with a result \<open>'r\<close>: its handler
  runs and cancels the timer, whose handler then sees \<open>operation_aborted\<close>. Or the
  timer expires first: its handler sees no error and asks for the cancellation of the
  action, whose handler runs next with the result \<open>'r\<close> the action ended with (it
  carries \<open>operation_aborted\<close> when the cancellation took effect). The bound handlers
  are arguments; the first returns the value it stores through its \<open>ret_code\<close>
  pointer.
\<close>

datatype 'r race = action_first 'r | deadline_first 'r

definition io_service_run ::
  "('r \<Rightarrow> 's \<Rightarrow> 'a \<times> 's) \<Rightarrow> (error_code \<Rightarrow> 's \<Rightarrow> 's) \<Rightarrow> 'r race \<Rightarrow> 's \<Rightarrow> 'a \<times> 's" where
  "io_service_run handler timer_handler r s =
     (case r of
        action_first res \<Rightarrow>
          (case handler res s of (ret_code, s1) \<Rightarrow>
             (ret_code, timer_handler operation_aborted s1))
      | deadline_first res \<Rightarrow> handler res (timer_handler success s))"

text \<open>The exception thrown by the constructors.\<close>

datatype exn = std_invalid_argument string

definition require :: "bool \<times> 's \<Rightarrow> string \<Rightarrow> ('s \<Rightarrow> exn + 't) \<Rightarrow> exn + 't" where
  "require r msg k = (if fst r then k (snd r) else Inl (std_invalid_argument msg))"


section \<open>The serial transport (comserial.cpp)\<close>

text \<open>
  The members of \<open>ComSerial\<close>. \<open>m_port\<close> holds whether the serial port handle is
  open; the option members hold the stored enumeration value.
\<close>

record ComSerial =
  m_port :: bool
  m_write_timeout :: time_duration
  m_read_timeout :: time_duration
  m_device :: string
  m_baud_rate :: "32 word"
  m_data_bits :: "32 word"
  m_stop_bits :: int
  m_parity :: int
  m_flow_control :: int
  os_calls :: "os_call list"

definition serial_call :: "os_call \<Rightarrow> ComSerial \<Rightarrow> ComSerial" where
  "serial_call c s = s\<lparr>os_calls := os_calls s @ [c]\<rparr>"

text \<open>
  \<open>serial_port::close(ec)\<close>: the handle is released and marked closed whatever the
  error code says.
\<close>

definition serial_close :: "ComSerial \<Rightarrow> ComSerial" where
  "serial_close s = (serial_call serial_port_close s)\<lparr>m_port := False\<rparr>"

subsection \<open>Kernel buffer queries\<close>

text \<open>
  What the platform answered to the queue query: on POSIX the return value of
  \<open>::ioctl\<close> and the count it stored, on Windows the return value of
  \<open>::ClearCommError\<close> and the \<open>DWORD\<close> count of the \<open>COMSTAT\<close>.
\<close>

datatype queue_query = ioctl_result int int | ClearCommError_result int "32 word"

definition available_for_read :: "queue_query \<Rightarrow> ComSerial \<Rightarrow> int \<times> ComSerial" where
  "available_for_read q s =
     (case q of
        ioctl_result r v \<Rightarrow> (if 0 > r then - 1 else v, serial_call ioctl_FIONREAD s)
      | ClearCommError_result r cb \<Rightarrow>
          (if 0 \<noteq> r then sint cb else - 1, serial_call ClearCommError s))"

definition pending_for_write :: "queue_query \<Rightarrow> ComSerial \<Rightarrow> int \<times> ComSerial" where
  "pending_for_write q s =
     (case q of
        ioctl_result r v \<Rightarrow> (if 0 > r then - 1 else v, serial_call ioctl_TIOCOUTQ s)
      | ClearCommError_result r cb \<Rightarrow>
          (if 0 \<noteq> r then sint cb else - 1, serial_call ClearCommError s))"

subsection \<open>Non-blocking transfers\<close>

text \<open>
  \<open>io\<close> is what \<open>read_some\<close> / \<open>write_some\<close> would answer: the error code and the
  number of bytes moved.
\<close>

definition ComSerial_ReadSome ::
  "queue_query \<Rightarrow> error_code \<times> nat \<Rightarrow> nat \<Rightarrow> ComSerial \<Rightarrow> int \<times> ComSerial" where
  "ComSerial_ReadSome q io len s =
     (case available_for_read q s of (ret_code, s1) \<Rightarrow>
        if ret_code \<le> 0 then (ret_code, s1)
        else (if fst io \<noteq> success then - 1 else int_of_size_t (snd io),
              serial_call serial_port_read_some s1))"

definition ComSerial_WriteSome ::
  "queue_query \<Rightarrow> error_code \<times> nat \<Rightarrow> nat \<Rightarrow> ComSerial \<Rightarrow> int \<times> ComSerial" where
  "ComSerial_WriteSome q io len s =
     (case pending_for_write q s of (ret_code, s1) \<Rightarrow>
        if ret_code \<noteq> 0 then (if ret_code > 0 then (0, s1) else (- 1, s1))
        else (if fst io \<noteq> success then - 1 else int_of_size_t (snd io),
              serial_call serial_port_write_some s1))"

subsection \<open>Open, Close, Opened\<close>

text \<open>
  The exclusive claim of the line is compiled on POSIX only: \<open>posix_locks r1 r2\<close> holds
  the return values of \<open>::ioctl(TIOCEXCL)\<close> and \<open>::flock\<close> (the second is called only
  when the first returned 0); \<open>windows_build\<close> is the build without that step.
\<close>

datatype exclusive_access = posix_locks int int | windows_build

definition claim_exclusive :: "exclusive_access \<Rightarrow> ComSerial \<Rightarrow> bool \<times> ComSerial" where
  "claim_exclusive x s =
     (case x of
        windows_build \<Rightarrow> (True, s)
      | posix_locks r1 r2 \<Rightarrow>
          if 0 \<noteq> r1 then (False, serial_call ioctl_TIOCEXCL s)
          else if 0 \<noteq> r2 then (False, serial_call flock_LOCK_EX (serial_call ioctl_TIOCEXCL s))
          else (True, serial_call flock_LOCK_EX (serial_call ioctl_TIOCEXCL s)))"

text \<open>
  The \<open>try\<close> block of \<open>ComSerial::Open\<close>: five \<open>set_option\<close> calls, for the baud
  rate, the data bits, the stop bits, the parity and the flow control, in this order;
  which of them throws, if any. A call that throws has been made, the calls after it
  are not.
\<close>

datatype line_options =
    all_options_set | baud_rate_throws | data_bits_throws | stop_bits_throws
  | parity_throws | flow_control_throws

definition set_options_try :: "line_options \<Rightarrow> ComSerial \<Rightarrow> bool \<times> ComSerial" where
  "set_options_try a s =
     (let s1 = serial_call serial_port_set_option s;
          s2 = serial_call serial_port_set_option s1;
          s3 = serial_call serial_port_set_option s2;
          s4 = serial_call serial_port_set_option s3;
          s5 = serial_call serial_port_set_option s4
      in case a of
           baud_rate_throws \<Rightarrow> (False, s1)
         | data_bits_throws \<Rightarrow> (False, s2)
         | stop_bits_throws \<Rightarrow> (False, s3)
         | parity_throws \<Rightarrow> (False, s4)
         | flow_control_throws \<Rightarrow> (False, s5)
         | all_options_set \<Rightarrow> (True, s5))"

text \<open>
  The answers of the collaborators during \<open>ComSerial::Open\<close>: the error code of
  \<open>m_port.open\<close>, the exclusive claim, and the outcome of the \<open>try\<close> block.
\<close>

record serial_open_env =
  port_open_ec :: error_code
  exclusive :: exclusive_access
  set_options :: line_options

definition ComSerial_Open :: "serial_open_env \<Rightarrow> ComSerial \<Rightarrow> bool \<times> ComSerial" where
  "ComSerial_Open env s =
     (let s1 = (if m_port s then serial_close s else s);
          s2 = (serial_call serial_port_open s1)\<lparr>m_port := (port_open_ec env = success)\<rparr>
      in if port_open_ec env \<noteq> success then (False, s2)
         else case claim_exclusive (exclusive env) s2 of (claimed, s3) \<Rightarrow>
           if \<not> claimed then (False, serial_close s3)
           else case set_options_try (set_options env) s3 of (completed, s4) \<Rightarrow>
             if \<not> completed then (False, serial_close s4) else (True, s4))"

definition ComSerial_Close :: "error_code \<Rightarrow> ComSerial \<Rightarrow> bool \<times> ComSerial" where
  "ComSerial_Close close_ec s =
     (case (if m_port s then (close_ec, serial_close s) else (success, s)) of (ec, s1) \<Rightarrow>
        if ec \<noteq> success then (False, s1) else (True, s1))"

definition ComSerial_Opened :: "ComSerial \<Rightarrow> bool" where
  "ComSerial_Opened s = m_port s"

subsection \<open>Blocking transfers with a deadline\<close>

definition ComSerial_read_write_handler ::
  "error_code \<Rightarrow> nat \<Rightarrow> ComSerial \<Rightarrow> int \<times> ComSerial" where
  "ComSerial_read_write_handler error bytes_transferred s =
     (if error \<noteq> success \<and> error \<noteq> operation_aborted then - 1
      else int_of_size_t bytes_transferred,
      serial_call timer_cancel s)"

definition ComSerial_timeout_handler :: "error_code \<Rightarrow> ComSerial \<Rightarrow> ComSerial" where
  "ComSerial_timeout_handler error s =
     (if error = operation_aborted then s else serial_call serial_port_cancel s)"

definition ComSerial_Read ::
  "(error_code \<times> nat) race \<Rightarrow> error_code \<Rightarrow> nat \<Rightarrow> ComSerial \<Rightarrow> int \<times> ComSerial" where
  "ComSerial_Read r run_ec len s =
     (case io_service_run (\<lambda>io. ComSerial_read_write_handler (fst io) (snd io))
             ComSerial_timeout_handler r
             (serial_call serial_port_async_read (serial_call timer_async_wait s))
      of (ret_code, s1) \<Rightarrow> (if run_ec \<noteq> success then - 1 else ret_code, s1))"

definition ComSerial_Write ::
  "(error_code \<times> nat) race \<Rightarrow> error_code \<Rightarrow> nat \<Rightarrow> ComSerial \<Rightarrow> int \<times> ComSerial" where
  "ComSerial_Write r run_ec len s =
     (case io_service_run (\<lambda>io. ComSerial_read_write_handler (fst io) (snd io))
             ComSerial_timeout_handler r
             (serial_call serial_port_async_write (serial_call timer_async_wait s))
      of (ret_code, s1) \<Rightarrow> (if run_ec \<noteq> success then - 1 else ret_code, s1))"

definition ComSerial_Abort :: "ComSerial \<Rightarrow> ComSerial" where
  "ComSerial_Abort s = serial_call serial_port_cancel (serial_call timer_cancel s)"

subsection \<open>Configuration\<close>

definition ComSerial_SetWriteTimeout :: "32 word \<Rightarrow> ComSerial \<Rightarrow> bool \<times> ComSerial" where
  "ComSerial_SetWriteTimeout write_timeout s =
     (if write_timeout = 0 then (False, s)
      else (True, s\<lparr>m_write_timeout := milliseconds write_timeout\<rparr>))"

definition ComSerial_GetWriteTimeout :: "ComSerial \<Rightarrow> 32 word" where
  "ComSerial_GetWriteTimeout s = word_of_int (total_milliseconds (m_write_timeout s))"

definition ComSerial_SetReadTimeout :: "32 word \<Rightarrow> ComSerial \<Rightarrow> bool \<times> ComSerial" where
  "ComSerial_SetReadTimeout read_timeout s =
     (if read_timeout = 0 then (False, s)
      else (True, s\<lparr>m_read_timeout := milliseconds read_timeout\<rparr>))"

definition ComSerial_GetReadTimeout :: "ComSerial \<Rightarrow> 32 word" where
  "ComSerial_GetReadTimeout s = word_of_int (total_milliseconds (m_read_timeout s))"

definition ComSerial_SetDevice :: "string \<Rightarrow> ComSerial \<Rightarrow> bool \<times> ComSerial" where
  "ComSerial_SetDevice device s =
     (if device = [] then (False, s) else (True, s\<lparr>m_device := device\<rparr>))"

definition ComSerial_GetDevice :: "ComSerial \<Rightarrow> string" where
  "ComSerial_GetDevice s = m_device s"

definition ComSerial_SetBaudRate :: "32 word \<Rightarrow> ComSerial \<Rightarrow> bool \<times> ComSerial" where
  "ComSerial_SetBaudRate baud_rate s =
     (if baud_rate = 0 then (False, s)
      else case boost_baud_rate baud_rate of
             None \<Rightarrow> (False, s)
           | Some v \<Rightarrow> (True, s\<lparr>m_baud_rate := v\<rparr>))"

definition ComSerial_GetBaudRate :: "ComSerial \<Rightarrow> 32 word" where
  "ComSerial_GetBaudRate s = m_baud_rate s"

definition ComSerial_SetDataBits :: "32 word \<Rightarrow> ComSerial \<Rightarrow> bool \<times> ComSerial" where
  "ComSerial_SetDataBits data_bits s =
     (case boost_character_size data_bits of
        None \<Rightarrow> (False, s)
      | Some v \<Rightarrow> (True, s\<lparr>m_data_bits := v\<rparr>))"

definition ComSerial_GetDataBits :: "ComSerial \<Rightarrow> 32 word" where
  "ComSerial_GetDataBits s = m_data_bits s"

definition store_stop_bits :: "int \<Rightarrow> ComSerial \<Rightarrow> bool \<times> ComSerial" where
  "store_stop_bits t s =
     (case boost_stop_bits t of None \<Rightarrow> (False, s) | Some v \<Rightarrow> (True, s\<lparr>m_stop_bits := v\<rparr>))"

definition ComSerial_SetStopBits :: "32 word \<Rightarrow> ComSerial \<Rightarrow> bool \<times> ComSerial" where
  "ComSerial_SetStopBits stop_bits s =
     (if stop_bits = 1 then store_stop_bits stop_bits_one s
      else if stop_bits = 2 then store_stop_bits stop_bits_two s
      else if stop_bits = 3 then store_stop_bits stop_bits_onepointfive s
      else (False, s))"

definition ComSerial_GetStopBits :: "ComSerial \<Rightarrow> 32 word" where
  "ComSerial_GetStopBits s =
     (if m_stop_bits s = stop_bits_one then 1
      else if m_stop_bits s = stop_bits_two then 2
      else if m_stop_bits s = stop_bits_onepointfive then 3
      else 0)"

definition store_parity :: "int \<Rightarrow> ComSerial \<Rightarrow> bool \<times> ComSerial" where
  "store_parity t s =
     (case boost_parity t of None \<Rightarrow> (False, s) | Some v \<Rightarrow> (True, s\<lparr>m_parity := v\<rparr>))"

definition ComSerial_SetParity :: "char \<Rightarrow> ComSerial \<Rightarrow> bool \<times> ComSerial" where
  "ComSerial_SetParity parity s =
     (if parity = CHR ''e'' \<or> parity = CHR ''E'' then store_parity parity_even s
      else if parity = CHR ''o'' \<or> parity = CHR ''O'' then store_parity parity_odd s
      else if parity = CHR ''n'' \<or> parity = CHR ''N'' then store_parity parity_none s
      else (False, s))"

definition ComSerial_GetParity :: "ComSerial \<Rightarrow> char" where
  "ComSerial_GetParity s =
     (if m_parity s = parity_even then CHR ''e''
      else if m_parity s = parity_odd then CHR ''o''
      else if m_parity s = parity_none then CHR ''n''
      else CHR 0x00)"

text \<open>
  \<open>SetFlowControl\<close> has no \<open>try\<close> block; it passes enumerators only, for which the
  constructor of the option does not throw.
\<close>

definition store_flow_control :: "int \<Rightarrow> ComSerial \<Rightarrow> bool \<times> ComSerial" where
  "store_flow_control t s =
     (case boost_flow_control t of
        None \<Rightarrow> (False, s)
      | Some v \<Rightarrow> (True, s\<lparr>m_flow_control := v\<rparr>))"

definition ComSerial_SetFlowControl :: "char \<Rightarrow> ComSerial \<Rightarrow> bool \<times> ComSerial" where
  "ComSerial_SetFlowControl flow_control s =
     (if flow_control = CHR ''h'' \<or> flow_control = CHR ''H''
        then store_flow_control flow_control_hardware s
      else if flow_control = CHR ''s'' \<or> flow_control = CHR ''S''
        then store_flow_control flow_control_software s
      else if flow_control = CHR ''n'' \<or> flow_control = CHR ''N''
        then store_flow_control flow_control_none s
      else (False, s))"

definition ComSerial_GetFlowControl :: "ComSerial \<Rightarrow> char" where
  "ComSerial_GetFlowControl s =
     (if m_flow_control s = flow_control_hardware then CHR ''h''
      else if m_flow_control s = flow_control_software then CHR ''s''
      else if m_flow_control s = flow_control_none then CHR ''n''
      else CHR 0x00)"

text \<open>
  \<open>Flush\<close>: the return value of \<open>::tcflush\<close> (POSIX, 0 is success) or of
  \<open>::PurgeComm\<close> (Windows, non-zero is success).
\<close>

datatype flush_result = tcflush_result int | PurgeComm_result int

definition ComSerial_Flush :: "flush_result \<Rightarrow> ComSerial \<Rightarrow> bool \<times> ComSerial" where
  "ComSerial_Flush f s =
     (case f of
        tcflush_result r \<Rightarrow> (r = 0, serial_call tcflush s)
      | PurgeComm_result r \<Rightarrow> (r \<noteq> 0, serial_call PurgeComm s))"

subsection \<open>Construction\<close>

text \<open>
  The members as the initialiser list leaves them: the port closed, the durations zero,
  the options at Boost's defaults (baud rate 0, 8 data bits, one stop bit, no parity, no
  flow control).
\<close>

definition ComSerial_members :: ComSerial where
  "ComSerial_members =
     \<lparr>m_port = False, m_write_timeout = 0, m_read_timeout = 0, m_device = [],
      m_baud_rate = 0, m_data_bits = 8, m_stop_bits = stop_bits_one,
      m_parity = parity_none, m_flow_control = flow_control_none, os_calls = []\<rparr>"

text \<open>
  The body of the constructor \<open>ComSerial::ComSerial\<close>. It ends normally (\<open>None\<close>) or
  by a throw (\<open>Some\<close>); in both cases the result carries the members, and with them the
  log of the calls made on the port, as they are when the body is left.
\<close>

definition throw_unless ::
  "bool \<times> 's \<Rightarrow> string \<Rightarrow> ('s \<Rightarrow> exn option \<times> 's) \<Rightarrow> exn option \<times> 's" where
  "throw_unless r msg k =
     (if fst r then k (snd r) else (Some (std_invalid_argument msg), snd r))"

definition ComSerial_ComSerial ::
  "string \<Rightarrow> 32 word \<Rightarrow> 32 word \<Rightarrow> 32 word \<Rightarrow> char \<Rightarrow> char \<Rightarrow> 32 word
     \<Rightarrow> exn option \<times> ComSerial" where
  "ComSerial_ComSerial device baud_rate data_bits stop_bits parity flow_control timeout =
     throw_unless (ComSerial_SetDevice device ComSerial_members) ''invalid device name'' (\<lambda>s.
     throw_unless (ComSerial_SetBaudRate baud_rate s) ''invalid baud rate'' (\<lambda>s.
     throw_unless (ComSerial_SetDataBits data_bits s) ''invalid data bits value'' (\<lambda>s.
     throw_unless (ComSerial_SetStopBits stop_bits s) ''invalid stop bits value'' (\<lambda>s.
     throw_unless (ComSerial_SetParity parity s) ''invalid parity value'' (\<lambda>s.
     throw_unless (ComSerial_SetFlowControl flow_control s) ''invalid flow control value'' (\<lambda>s.
     throw_unless (ComSerial_SetWriteTimeout timeout s) ''invalid timeout value'' (\<lambda>s.
     throw_unless (ComSerial_SetReadTimeout timeout s) ''invalid timeout value''
       (\<lambda>s. (None, s)))))))))"

text \<open>
  \<open>new ComSerial(...)\<close>: the object when the constructor ends normally, the exception
  and no object when it throws.
\<close>

definition ComSerial_new ::
  "string \<Rightarrow> 32 word \<Rightarrow> 32 word \<Rightarrow> 32 word \<Rightarrow> char \<Rightarrow> char \<Rightarrow> 32 word \<Rightarrow> exn + ComSerial" where
  "ComSerial_new device baud_rate data_bits stop_bits parity flow_control timeout =
     (case ComSerial_ComSerial device baud_rate data_bits stop_bits parity flow_control timeout
      of (None, s) \<Rightarrow> Inr s
       | (Some e, s) \<Rightarrow> Inl e)"

subsection \<open>The public operations as steps\<close>

text \<open>
  Every public method of a constructed \<open>ComSerial\<close>, with the answers of its
  collaborators, and the state it leaves. The getters and \<open>Opened\<close> leave the state as
  it is.
\<close>

datatype serial_op =
    op_Open serial_open_env
  | op_Close error_code
  | op_Opened
  | op_ReadSome queue_query "error_code \<times> nat" nat
  | op_WriteSome queue_query "error_code \<times> nat" nat
  | op_Read "(error_code \<times> nat) race" error_code nat
  | op_Write "(error_code \<times> nat) race" error_code nat
  | op_Abort
  | op_SetWriteTimeout "32 word"
  | op_SetReadTimeout "32 word"
  | op_SetDevice string
  | op_SetBaudRate "32 word"
  | op_SetDataBits "32 word"
  | op_SetStopBits "32 word"
  | op_SetParity char
  | op_SetFlowControl char
  | op_Flush flush_result
  | op_Get

fun serial_step :: "ComSerial \<Rightarrow> serial_op \<Rightarrow> ComSerial" where
  "serial_step s (op_Open env) = snd (ComSerial_Open env s)"
| "serial_step s (op_Close ec) = snd (ComSerial_Close ec s)"
| "serial_step s op_Opened = s"
| "serial_step s (op_ReadSome q io len) = snd (ComSerial_ReadSome q io len s)"
| "serial_step s (op_WriteSome q io len) = snd (ComSerial_WriteSome q io len s)"
| "serial_step s (op_Read r run_ec len) = snd (ComSerial_Read r run_ec len s)"
| "serial_step s (op_Write r run_ec len) = snd (ComSerial_Write r run_ec len s)"
| "serial_step s op_Abort = ComSerial_Abort s"
| "serial_step s (op_SetWriteTimeout t) = snd (ComSerial_SetWriteTimeout t s)"
| "serial_step s (op_SetReadTimeout t) = snd (ComSerial_SetReadTimeout t s)"
| "serial_step s (op_SetDevice d) = snd (ComSerial_SetDevice d s)"
| "serial_step s (op_SetBaudRate b) = snd (ComSerial_SetBaudRate b s)"
| "serial_step s (op_SetDataBits b) = snd (ComSerial_SetDataBits b s)"
| "serial_step s (op_SetStopBits b) = snd (ComSerial_SetStopBits b s)"
| "serial_step s (op_SetParity p) = snd (ComSerial_SetParity p s)"
| "serial_step s (op_SetFlowControl f) = snd (ComSerial_SetFlowControl f s)"
| "serial_step s (op_Flush f) = snd (ComSerial_Flush f s)"
| "serial_step s op_Get = s"

definition serial_run :: "ComSerial \<Rightarrow> serial_op list \<Rightarrow> ComSerial" where
  "serial_run s ops = foldl serial_step s ops"


section \<open>The socket transport (comsocket.cpp)\<close>

text \<open>
  \<open>boost::asio::ip::address\<close>: an IPv4 or an IPv6 address. The default-constructed
  address is the IPv4 address 0.0.0.0, and \<open>is_unspecified()\<close> holds of 0.0.0.0 and of
  the IPv6 address \<open>::\<close>. The parser behind \<open>address::from_string\<close> is an argument
  (\<open>None\<close>: the text is no address); on a failure \<open>from_string\<close> sets the error code
  and returns the default-constructed address.
\<close>

datatype ip_address = address_v4 "32 word" | address_v6 "128 word"

definition default_address :: ip_address where
  "default_address = address_v4 0"

definition is_unspecified :: "ip_address \<Rightarrow> bool" where
  "is_unspecified a = (case a of address_v4 w \<Rightarrow> w = 0 | address_v6 w \<Rightarrow> w = 0)"

type_synonym address_parser = "string \<Rightarrow> ip_address option"

definition from_string :: "address_parser \<Rightarrow> string \<Rightarrow> error_code \<times> ip_address" where
  "from_string parse str =
     (case parse str of
        None \<Rightarrow> (invalid_argument, default_address)
      | Some a \<Rightarrow> (success, a))"

text \<open>
  The members of \<open>ComSocket\<close>. \<open>m_socket\<close> and \<open>m_acceptor\<close> hold whether the handle
  is open. The members that share their name with a member of \<open>ComSerial\<close> carry a
  prime.
\<close>

record ComSocket =
  m_socket :: bool
  m_acceptor :: bool
  m_write_timeout' :: time_duration
  m_read_timeout' :: time_duration
  m_open_timeout :: time_duration
  m_address :: ip_address
  m_port' :: "32 word"
  os_calls' :: "os_call list"

definition socket_call :: "os_call \<Rightarrow> ComSocket \<Rightarrow> ComSocket" where
  "socket_call c s = s\<lparr>os_calls' := os_calls' s @ [c]\<rparr>"

text \<open>
  \<open>close(ec)\<close> of the socket and of the acceptor: the descriptor is closed even when
  the call reports an error.
\<close>

definition socket_close' :: "ComSocket \<Rightarrow> ComSocket" where
  "socket_close' s = (socket_call socket_close s)\<lparr>m_socket := False\<rparr>"

definition acceptor_close' :: "ComSocket \<Rightarrow> ComSocket" where
  "acceptor_close' s = (socket_call acceptor_close s)\<lparr>m_acceptor := False\<rparr>"

subsection \<open>Completion handlers\<close>

definition ComSocket_open_handler :: "error_code \<Rightarrow> ComSocket \<Rightarrow> bool \<times> ComSocket" where
  "ComSocket_open_handler error s =
     (if error \<noteq> success \<and> error \<noteq> operation_aborted then False else True,
      socket_call timer_cancel s)"

definition ComSocket_read_write_handler ::
  "error_code \<Rightarrow> nat \<Rightarrow> ComSocket \<Rightarrow> int \<times> ComSocket" where
  "ComSocket_read_write_handler error bytes_transferred s =
     (if error \<noteq> success \<and> error \<noteq> operation_aborted then - 1
      else int_of_size_t bytes_transferred,
      socket_call timer_cancel s)"

definition ComSocket_timeout_handler :: "error_code \<Rightarrow> ComSocket \<Rightarrow> ComSocket" where
  "ComSocket_timeout_handler error s =
     (if error = operation_aborted then s else socket_call socket_cancel s)"

definition ComSocket_timeout_accept_handler :: "error_code \<Rightarrow> ComSocket \<Rightarrow> ComSocket" where
  "ComSocket_timeout_accept_handler error s =
     (if error = operation_aborted then s else socket_call acceptor_cancel s)"

subsection \<open>Open\<close>

text \<open>
  The \<open>try\<close> block of the server branch: which of the four acceptor calls throws, if
  any. The acceptor is open once \<open>open\<close> has returned.
\<close>

datatype acceptor_setup =
  setup_completes | throws_at_open | throws_at_set_option | throws_at_bind | throws_at_listen

definition acceptor_try :: "acceptor_setup \<Rightarrow> ComSocket \<Rightarrow> bool \<times> ComSocket" where
  "acceptor_try a s =
     (let s1 = socket_call acceptor_open s;
          s2 = socket_call acceptor_set_option (s1\<lparr>m_acceptor := True\<rparr>);
          s3 = socket_call acceptor_bind s2;
          s4 = socket_call acceptor_listen s3
      in case a of
           throws_at_open \<Rightarrow> (False, s1)
         | throws_at_set_option \<Rightarrow> (False, s2)
         | throws_at_bind \<Rightarrow> (False, s3)
         | throws_at_listen \<Rightarrow> (False, s4)
         | setup_completes \<Rightarrow> (True, s4))"

text \<open>
  The answers of the collaborators during \<open>ComSocket::Open\<close>: the acceptor set-up, the
  error code of the \<open>open\<close> that \<open>async_connect\<close> performs on a closed socket, how the
  connect or accept ended against the timer, the error codes of \<open>io_service::run\<close> and
  of the acceptor's \<open>close\<close>, and the error code of \<open>non_blocking(true, ec)\<close> on an
  open socket (on a closed socket it is \<open>bad_descriptor\<close>).
\<close>

record socket_open_env =
  acceptor_setup :: acceptor_setup
  socket_open_ec :: error_code
  open_race :: "error_code race"
  run_ec :: error_code
  acceptor_close_ec :: error_code
  non_blocking_ec :: error_code

text \<open>
  \<open>async_accept(m_socket, handler)\<close>: an accepted connection opens the peer socket
  before the handler runs.
\<close>

definition accept_completion :: "error_code \<Rightarrow> ComSocket \<Rightarrow> bool \<times> ComSocket" where
  "accept_completion error s =
     ComSocket_open_handler error (if error = success then s\<lparr>m_socket := True\<rparr> else s)"

text \<open>
  \<open>async_connect(endpoint, handler)\<close> followed by \<open>run\<close>: a socket that is not open
  is opened first, and when that fails the handler is called with the error of the
  \<open>open\<close> and no connection is attempted.
\<close>

definition async_connect_run :: "socket_open_env \<Rightarrow> ComSocket \<Rightarrow> bool \<times> ComSocket" where
  "async_connect_run env s =
     (let s1 = socket_call socket_async_connect s in
      if m_socket s1
        then io_service_run ComSocket_open_handler ComSocket_timeout_handler (open_race env) s1
      else if socket_open_ec env \<noteq> success
        then io_service_run ComSocket_open_handler ComSocket_timeout_handler
               (action_first (socket_open_ec env)) (socket_call socket_open s1)
      else io_service_run ComSocket_open_handler ComSocket_timeout_handler (open_race env)
             ((socket_call socket_open s1)\<lparr>m_socket := True\<rparr>))"

text \<open>The statements of \<open>Open\<close> after the two branches have joined.\<close>

definition Open_join :: "socket_open_env \<Rightarrow> error_code \<Rightarrow> bool \<Rightarrow> ComSocket \<Rightarrow> bool \<times> ComSocket" where
  "Open_join env ec ret_code s =
     (if ec \<noteq> success then (False, s)
      else if (if m_socket s then non_blocking_ec env else bad_descriptor) \<noteq> success
        then (False, socket_close' (socket_call socket_non_blocking s))
      else (ret_code, socket_call socket_non_blocking s))"

definition ComSocket_Open :: "socket_open_env \<Rightarrow> ComSocket \<Rightarrow> bool \<times> ComSocket" where
  "ComSocket_Open env s =
     (let s0 = (if m_socket s then socket_close' s else s) in
      if is_unspecified (m_address s0) then
        (case acceptor_try (acceptor_setup env) (socket_call timer_async_wait s0) of
           (completed, s1) \<Rightarrow>
             if \<not> completed then (False, acceptor_close' s1)
             else
               (case io_service_run accept_completion ComSocket_timeout_accept_handler
                       (open_race env) (socket_call acceptor_async_accept s1) of
                  (ret_code, s2) \<Rightarrow>
                    Open_join env
                      (if acceptor_close_ec env \<noteq> success then acceptor_close_ec env
                       else run_ec env)
                      ret_code (acceptor_close' s2)))
      else
        (case async_connect_run env (socket_call timer_async_wait s0) of
           (ret_code, s1) \<Rightarrow> Open_join env (run_ec env) ret_code s1))"

subsection \<open>Close, Opened, transfers, Abort\<close>

definition ComSocket_Close :: "error_code \<Rightarrow> ComSocket \<Rightarrow> bool \<times> ComSocket" where
  "ComSocket_Close close_ec s =
     (case (if m_socket s then (close_ec, socket_close' s) else (success, s)) of (ec, s1) \<Rightarrow>
        if ec \<noteq> success then (False, s1) else (True, s1))"

definition ComSocket_Opened :: "ComSocket \<Rightarrow> bool" where
  "ComSocket_Opened s = m_socket s"

definition ComSocket_ReadSome :: "error_code \<times> nat \<Rightarrow> nat \<Rightarrow> ComSocket \<Rightarrow> int \<times> ComSocket" where
  "ComSocket_ReadSome io len s =
     (if fst io \<noteq> success then (if fst io = would_block then 0 else - 1)
      else int_of_size_t (snd io),
      socket_call socket_read_some s)"

definition ComSocket_WriteSome :: "error_code \<times> nat \<Rightarrow> nat \<Rightarrow> ComSocket \<Rightarrow> int \<times> ComSocket" where
  "ComSocket_WriteSome io len s =
     (if fst io \<noteq> success then (if fst io = would_block then 0 else - 1)
      else int_of_size_t (snd io),
      socket_call socket_write_some s)"

definition ComSocket_Read ::
  "(error_code \<times> nat) race \<Rightarrow> error_code \<Rightarrow> nat \<Rightarrow> ComSocket \<Rightarrow> int \<times> ComSocket" where
  "ComSocket_Read r run_error len s =
     (case io_service_run (\<lambda>io. ComSocket_read_write_handler (fst io) (snd io))
             ComSocket_timeout_handler r
             (socket_call socket_async_read (socket_call timer_async_wait s))
      of (ret_code, s1) \<Rightarrow> (if run_error \<noteq> success then - 1 else ret_code, s1))"

definition ComSocket_Write ::
  "(error_code \<times> nat) race \<Rightarrow> error_code \<Rightarrow> nat \<Rightarrow> ComSocket \<Rightarrow> int \<times> ComSocket" where
  "ComSocket_Write r run_error len s =
     (case io_service_run (\<lambda>io. ComSocket_read_write_handler (fst io) (snd io))
             ComSocket_timeout_handler r
             (socket_call socket_async_write (socket_call timer_async_wait s))
      of (ret_code, s1) \<Rightarrow> (if run_error \<noteq> success then - 1 else ret_code, s1))"

text \<open>
  \<open>Abort\<close>, with the error codes of \<open>m_socket.cancel\<close> and \<open>m_acceptor.cancel\<close>.
\<close>

definition ComSocket_Abort :: "error_code \<Rightarrow> error_code \<Rightarrow> ComSocket \<Rightarrow> ComSocket" where
  "ComSocket_Abort socket_cancel_ec acceptor_cancel_ec s =
     (let s1 = socket_call socket_cancel (socket_call timer_cancel s);
          s2 = (if socket_cancel_ec = operation_not_supported then socket_close' s1 else s1);
          s3 = socket_call acceptor_cancel s2
      in if acceptor_cancel_ec = operation_not_supported then acceptor_close' s3 else s3)"

subsection \<open>Configuration\<close>

definition ComSocket_SetWriteTimeout :: "32 word \<Rightarrow> ComSocket \<Rightarrow> bool \<times> ComSocket" where
  "ComSocket_SetWriteTimeout write_timeout s =
     (if write_timeout = 0 then (False, s)
      else (True, s\<lparr>m_write_timeout' := milliseconds write_timeout\<rparr>))"

definition ComSocket_GetWriteTimeout :: "ComSocket \<Rightarrow> 32 word" where
  "ComSocket_GetWriteTimeout s = word_of_int (total_milliseconds (m_write_timeout' s))"

definition ComSocket_SetReadTimeout :: "32 word \<Rightarrow> ComSocket \<Rightarrow> bool \<times> ComSocket" where
  "ComSocket_SetReadTimeout read_timeout s =
     (if read_timeout = 0 then (False, s)
      else (True, s\<lparr>m_read_timeout' := milliseconds read_timeout\<rparr>))"

definition ComSocket_GetReadTimeout :: "ComSocket \<Rightarrow> 32 word" where
  "ComSocket_GetReadTimeout s = word_of_int (total_milliseconds (m_read_timeout' s))"

definition ComSocket_SetOpenTimeout :: "32 word \<Rightarrow> ComSocket \<Rightarrow> bool \<times> ComSocket" where
  "ComSocket_SetOpenTimeout open_timeout s =
     (if open_timeout = 0 then (False, s)
      else (True, s\<lparr>m_open_timeout := milliseconds open_timeout\<rparr>))"

definition ComSocket_GetOpenTimeout :: "ComSocket \<Rightarrow> 32 word" where
  "ComSocket_GetOpenTimeout s = word_of_int (total_milliseconds (m_open_timeout s))"

definition ComSocket_SetAddress :: "address_parser \<Rightarrow> string \<Rightarrow> ComSocket \<Rightarrow> bool \<times> ComSocket" where
  "ComSocket_SetAddress parse address s =
     (case (if address = [] then (success, default_address) else from_string parse address) of
        (ec, a) \<Rightarrow> (if ec \<noteq> success then False else True, s\<lparr>m_address := a\<rparr>))"

text \<open>\<open>to_string\<close> is the printer of \<open>boost::asio::ip::address\<close>.\<close>

definition ComSocket_GetAddress :: "(ip_address \<Rightarrow> string) \<Rightarrow> ComSocket \<Rightarrow> string" where
  "ComSocket_GetAddress to_string s =
     (if is_unspecified (m_address s) then [] else to_string (m_address s))"

definition ComSocket_SetPort :: "32 word \<Rightarrow> ComSocket \<Rightarrow> bool \<times> ComSocket" where
  "ComSocket_SetPort port s =
     (if port > 65535 then (False, s) else (True, s\<lparr>m_port' := port\<rparr>))"

definition ComSocket_GetPort :: "ComSocket \<Rightarrow> 32 word" where
  "ComSocket_GetPort s = m_port' s"

subsection \<open>Construction\<close>

text \<open>
  The members as the initialiser list leaves them: both handles closed, the durations
  zero, the address default-constructed. \<open>m_port\<close> has no initialiser; it reads 0 here
  and is assigned by \<open>SetPort\<close> before the constructor returns.
\<close>

definition ComSocket_members :: ComSocket where
  "ComSocket_members =
     \<lparr>m_socket = False, m_acceptor = False, m_write_timeout' = 0, m_read_timeout' = 0,
      m_open_timeout = 0, m_address = default_address, m_port' = 0, os_calls' = []\<rparr>"

definition ComSocket_new ::
  "address_parser \<Rightarrow> string \<Rightarrow> 32 word \<Rightarrow> 32 word \<Rightarrow> exn + ComSocket" where
  "ComSocket_new parse address port timeout =
     require (ComSocket_SetAddress parse address ComSocket_members) ''invalid IP address'' (\<lambda>s.
     require (ComSocket_SetPort port s) ''invalid TCP port'' (\<lambda>s.
     require (ComSocket_SetOpenTimeout timeout s) ''invalid timeout value'' (\<lambda>s.
     require (ComSocket_SetWriteTimeout timeout s) ''invalid timeout value'' (\<lambda>s.
     require (ComSocket_SetReadTimeout timeout s) ''invalid timeout value'' Inr))))"

subsection \<open>Concrete collaborators for the examples\<close>

text \<open>
  What \<open>address::from_string\<close> and \<open>to_string\<close> answer on the address literals of the
  example programs and on the two spellings of the unspecified address; every other text
  is taken as unparsable. The theorems below hold for every parser; this one only feeds
  the worked examples.
\<close>

definition literal_addresses :: address_parser where
  "literal_addresses str =
     (if str = ''127.0.0.1'' then Some (address_v4 0x7F000001)
      else if str = ''192.168.1.100'' then Some (address_v4 0xC0A80164)
      else if str = ''0.0.0.0'' then Some (address_v4 0)
      else if str = ''::'' then Some (address_v6 0)
      else None)"

definition literal_to_string :: "ip_address \<Rightarrow> string" where
  "literal_to_string a =
     (if a = address_v4 0x7F000001 then ''127.0.0.1''
      else if a = address_v4 0xC0A80164 then ''192.168.1.100''
      else if a = address_v4 0 then ''0.0.0.0''
      else if a = address_v6 0 then ''::''
      else ''?'')"

text \<open>The calls an operation added to the log, given the states before and after.\<close>

definition serial_calls_during :: "ComSerial \<Rightarrow> ComSerial \<Rightarrow> os_call list" where
  "serial_calls_during s s' = drop (length (os_calls s)) (os_calls s')"

definition socket_calls_during :: "ComSocket \<Rightarrow> ComSocket \<Rightarrow> os_call list" where
  "socket_calls_during s s' = drop (length (os_calls' s)) (os_calls' s')"

text \<open>
  Which branch of \<open>ComSocket::Open\<close> ran, read off the log. The server branch opens the
  acceptor and never connects; when the set-up of the acceptor completes it has bound,
  listened and started one accept, and when the set-up throws no accept is started. The
  client branch connects and never opens the acceptor.
\<close>

definition opens_as_server :: "socket_open_env \<Rightarrow> ComSocket \<Rightarrow> bool" where
  "opens_as_server env s \<longleftrightarrow>
     acceptor_open \<in> set (socket_calls_during s (snd (ComSocket_Open env s))) \<and>
     socket_async_connect \<notin> set (socket_calls_during s (snd (ComSocket_Open env s))) \<and>
     (if acceptor_setup env = setup_completes
      then acceptor_bind \<in> set (socket_calls_during s (snd (ComSocket_Open env s))) \<and>
           acceptor_listen \<in> set (socket_calls_during s (snd (ComSocket_Open env s))) \<and>
           count_list (socket_calls_during s (snd (ComSocket_Open env s)))
             acceptor_async_accept = 1
      else acceptor_async_accept \<notin> set (socket_calls_during s (snd (ComSocket_Open env s))))"

definition opens_as_client :: "socket_open_env \<Rightarrow> ComSocket \<Rightarrow> bool" where
  "opens_as_client env s \<longleftrightarrow>
     socket_async_connect \<in> set (socket_calls_during s (snd (ComSocket_Open env s))) \<and>
     acceptor_open \<notin> set (socket_calls_during s (snd (ComSocket_Open env s)))"

text \<open>
  The objects of the example programs: \<open>ComSerial("COM1", 38400, 8, 1, 'n', 'h', 1000)\<close>
  as constructed and after a successful \<open>Open\<close>, \<open>ComSocket("192.168.1.100", 3444,
  1000)\<close> and \<open>ComSocket("", 3444, 1000)\<close> as constructed.
\<close>

definition COM1_new :: ComSerial where
  "COM1_new =
     \<lparr>m_port = False, m_write_timeout = 1000000, m_read_timeout = 1000000,
      m_device = ''COM1'', m_baud_rate = 38400, m_data_bits = 8, m_stop_bits = stop_bits_one,
      m_parity = parity_none, m_flow_control = flow_control_hardware, os_calls = []\<rparr>"

definition COM1 :: ComSerial where
  "COM1 = COM1_new
     \<lparr>m_port := True,
      os_calls := [serial_port_open, ioctl_TIOCEXCL, flock_LOCK_EX, serial_port_set_option,
                   serial_port_set_option, serial_port_set_option, serial_port_set_option,
                   serial_port_set_option]\<rparr>"

definition client_3444 :: ComSocket where
  "client_3444 =
     \<lparr>m_socket = False, m_acceptor = False, m_write_timeout' = 1000000,
      m_read_timeout' = 1000000, m_open_timeout = 1000000,
      m_address = address_v4 0xC0A80164, m_port' = 3444, os_calls' = []\<rparr>"

definition server_3444 :: ComSocket where
  "server_3444 = client_3444\<lparr>m_address := address_v4 0\<rparr>"

text \<open>
  Two runs of \<open>Open\<close>. In \<open>open_succeeds\<close> the connect or accept completes before the
  deadline. In \<open>open_times_out\<close> nobody answers: the timer expires first, the pending
  connect or accept is cancelled and completes with \<open>operation_aborted\<close>. In both, no
  other call fails.
\<close>

definition open_succeeds :: socket_open_env where
  "open_succeeds =
     \<lparr>acceptor_setup = setup_completes, socket_open_ec = success,
      open_race = action_first success, run_ec = success,
      acceptor_close_ec = success, non_blocking_ec = success\<rparr>"

definition open_times_out :: socket_open_env where
  "open_times_out =
     \<lparr>acceptor_setup = setup_completes, socket_open_ec = success,
      open_race = deadline_first operation_aborted, run_ec = success,
      acceptor_close_ec = success, non_blocking_ec = success\<rparr>"

text \<open>The client socket after an \<open>Open\<close> that connected.\<close>

definition client_3444_connected :: ComSocket where
  "client_3444_connected = client_3444
     \<lparr>m_socket := True,
      os_calls' := [timer_async_wait, socket_async_connect, socket_open, timer_cancel,
                    socket_non_blocking]\<rparr>"

text \<open>
  The stored line configuration holds enumerators only: the state in which none of the
  three getters reaches its \<open>default\<close> label.
\<close>

definition line_config_valid :: "ComSerial \<Rightarrow> bool" where
  "line_config_valid s \<longleftrightarrow>
     (m_stop_bits s = stop_bits_one \<or> m_stop_bits s = stop_bits_onepointfive \<or>
      m_stop_bits s = stop_bits_two) \<and>
     (m_parity s = parity_none \<or> m_parity s = parity_odd \<or> m_parity s = parity_even) \<and>
     (m_flow_control s = flow_control_none \<or> m_flow_control s = flow_control_software \<or>
      m_flow_control s = flow_control_hardware)"


section \<open>The example objects are what the constructors build\<close>

lemmas enum_defs =
  stop_bits_one_def stop_bits_two_def stop_bits_onepointfive_def
  parity_none_def parity_odd_def parity_even_def
  flow_control_none_def flow_control_software_def flow_control_hardware_def

lemmas serial_setter_defs =
  ComSerial_SetDevice_def ComSerial_SetBaudRate_def boost_baud_rate_def
  ComSerial_SetDataBits_def boost_character_size_def
  ComSerial_SetStopBits_def store_stop_bits_def boost_stop_bits_def
  ComSerial_SetParity_def store_parity_def boost_parity_def
  ComSerial_SetFlowControl_def store_flow_control_def boost_flow_control_def
  ComSerial_SetWriteTimeout_def ComSerial_SetReadTimeout_def

lemmas socket_setter_defs =
  ComSocket_SetAddress_def from_string_def ComSocket_SetPort_def
  ComSocket_SetOpenTimeout_def ComSocket_SetWriteTimeout_def ComSocket_SetReadTimeout_def

text \<open>
  The object or the exception of a construction, as the chain of checks of the
  constructor body gives it.
\<close>

lemma throw_unless_require:
  "(case throw_unless r msg k of (None, s) \<Rightarrow> Inr s | (Some e, s) \<Rightarrow> Inl e) =
   require r msg (\<lambda>s. case k s of (None, s') \<Rightarrow> Inr s' | (Some e, s') \<Rightarrow> Inl e)"
  by (simp add: throw_unless_def require_def)

lemma ComSerial_new_require:
  "ComSerial_new device baud_rate data_bits stop_bits parity flow_control timeout =
     require (ComSerial_SetDevice device ComSerial_members) ''invalid device name'' (\<lambda>s.
     require (ComSerial_SetBaudRate baud_rate s) ''invalid baud rate'' (\<lambda>s.
     require (ComSerial_SetDataBits data_bits s) ''invalid data bits value'' (\<lambda>s.
     require (ComSerial_SetStopBits stop_bits s) ''invalid stop bits value'' (\<lambda>s.
     require (ComSerial_SetParity parity s) ''invalid parity value'' (\<lambda>s.
     require (ComSerial_SetFlowControl flow_control s) ''invalid flow control value'' (\<lambda>s.
     require (ComSerial_SetWriteTimeout timeout s) ''invalid timeout value'' (\<lambda>s.
     require (ComSerial_SetReadTimeout timeout s) ''invalid timeout value'' Inr)))))))"
  unfolding ComSerial_new_def ComSerial_ComSerial_def throw_unless_require
  by simp

lemma COM1_new_constructed:
  "ComSerial_new ''COM1'' 38400 8 1 (CHR ''n'') (CHR ''h'') 1000 = Inr COM1_new"
  by (simp add: ComSerial_new_require require_def serial_setter_defs milliseconds_def
      ComSerial_members_def COM1_new_def enum_defs)

lemma COM1_opened:
  "ComSerial_Open \<lparr>port_open_ec = success, exclusive = posix_locks 0 0,
     set_options = all_options_set\<rparr> COM1_new = (True, COM1)"
  by (simp add: ComSerial_Open_def claim_exclusive_def set_options_try_def serial_call_def
      serial_close_def COM1_def COM1_new_def)

lemma client_3444_constructed:
  "ComSocket_new literal_addresses ''192.168.1.100'' 3444 1000 = Inr client_3444"
  by (simp add: ComSocket_new_def require_def socket_setter_defs milliseconds_def
      ComSocket_members_def client_3444_def literal_addresses_def default_address_def)

lemma server_3444_constructed:
  "ComSocket_new literal_addresses [] 3444 1000 = Inr server_3444"
  by (simp add: ComSocket_new_def require_def socket_setter_defs milliseconds_def
      ComSocket_members_def client_3444_def server_3444_def literal_addresses_def
      default_address_def)

lemmas socket_open_defs =
  ComSocket_Open_def Open_join_def async_connect_run_def acceptor_try_def accept_completion_def
  io_service_run_def ComSocket_open_handler_def ComSocket_timeout_handler_def
  ComSocket_timeout_accept_handler_def socket_call_def socket_close'_def acceptor_close'_def

lemma client_3444_connects:
  "ComSocket_Open open_succeeds client_3444 = (True, client_3444_connected)"
  by (simp add: open_succeeds_def client_3444_connected_def client_3444_def is_unspecified_def
      socket_open_defs)


section \<open>Non-blocking serial transfers and the kernel buffers\<close>

text \<open>
  C4. \<open>ComSerial::WriteSome\<close>: when \<open>pending_for_write()\<close> reports a count above 0 the
  call returns 0 and no write is issued; when it reports the error \<open>-1\<close> the call
  returns \<open>-1\<close>, again with no write; the write is issued exactly when the pending
  count is 0.
\<close>

theorem ComSerial_WriteSome_backpressure:
  "(0 < fst (pending_for_write q s) \<longrightarrow>
      fst (ComSerial_WriteSome q io len s) = 0 \<and>
      serial_port_write_some \<notin>
        set (serial_calls_during s (snd (ComSerial_WriteSome q io len s)))) \<and>
   (fst (pending_for_write q s) = - 1 \<longrightarrow>
      fst (ComSerial_WriteSome q io len s) = - 1 \<and>
      serial_port_write_some \<notin>
        set (serial_calls_during s (snd (ComSerial_WriteSome q io len s)))) \<and>
   (serial_port_write_some \<in> set (serial_calls_during s (snd (ComSerial_WriteSome q io len s)))
      \<longleftrightarrow> fst (pending_for_write q s) = 0)"
  by (cases q)
     (auto simp: ComSerial_WriteSome_def pending_for_write_def serial_call_def
        serial_calls_during_def)

text \<open>
  The three cases on the opened example port: five bytes pending, a failed query, and an
  empty output queue (the last as the Windows build reports it).
\<close>

theorem ComSerial_WriteSome_backpressure_witness:
  "0 < fst (pending_for_write (ioctl_result 0 5) COM1) \<and>
   fst (ComSerial_WriteSome (ioctl_result 0 5) (success, 4) 4 COM1) = 0 \<and>
   serial_port_write_some \<notin> set (serial_calls_during COM1
      (snd (ComSerial_WriteSome (ioctl_result 0 5) (success, 4) 4 COM1))) \<and>
   fst (pending_for_write (ioctl_result (- 1) 0) COM1) = - 1 \<and>
   fst (ComSerial_WriteSome (ioctl_result (- 1) 0) (success, 4) 4 COM1) = - 1 \<and>
   fst (pending_for_write (ClearCommError_result 1 0) COM1) = 0 \<and>
   serial_port_write_some \<in> set (serial_calls_during COM1
      (snd (ComSerial_WriteSome (ClearCommError_result 1 0) (success, 4) 4 COM1)))"
  using ComSerial_WriteSome_backpressure [of "ioctl_result 0 5" COM1 "(success, 4)" 4]
    ComSerial_WriteSome_backpressure [of "ioctl_result (- 1) 0" COM1 "(success, 4)" 4]
    ComSerial_WriteSome_backpressure [of "ClearCommError_result 1 0" COM1 "(success, 4)" 4]
  by (simp add: pending_for_write_def)

text \<open>
  C6. \<open>ComSerial::ReadSome\<close>: when \<open>available_for_read()\<close> returns a value \<open>v \<le> 0\<close>
  the call returns \<open>v\<close> itself (0 for no data, \<open>-1\<close> for a failed query) and no read
  is issued; the read is issued exactly when \<open>v > 0\<close>.
\<close>

theorem ComSerial_ReadSome_availability:
  "(fst (available_for_read q s) \<le> 0 \<longrightarrow>
      fst (ComSerial_ReadSome q io len s) = fst (available_for_read q s) \<and>
      serial_port_read_some \<notin>
        set (serial_calls_during s (snd (ComSerial_ReadSome q io len s)))) \<and>
   (serial_port_read_some \<in> set (serial_calls_during s (snd (ComSerial_ReadSome q io len s)))
      \<longleftrightarrow> 0 < fst (available_for_read q s))"
  by (cases q)
     (auto simp: ComSerial_ReadSome_def available_for_read_def serial_call_def
        serial_calls_during_def)

theorem ComSerial_ReadSome_availability_witness:
  "fst (available_for_read (ioctl_result 0 0) COM1) \<le> 0 \<and>
   fst (ComSerial_ReadSome (ioctl_result 0 0) (success, 4) 4 COM1) = 0 \<and>
   fst (ComSerial_ReadSome (ioctl_result (- 1) 7) (success, 4) 4 COM1) = - 1 \<and>
   serial_port_read_some \<notin> set (serial_calls_during COM1
      (snd (ComSerial_ReadSome (ioctl_result 0 0) (success, 4) 4 COM1))) \<and>
   0 < fst (available_for_read (ioctl_result 0 4) COM1) \<and>
   serial_port_read_some \<in> set (serial_calls_during COM1
      (snd (ComSerial_ReadSome (ioctl_result 0 4) (success, 4) 4 COM1)))"
  using ComSerial_ReadSome_availability [of "ioctl_result 0 0" COM1 "(success, 4)" 4]
    ComSerial_ReadSome_availability [of "ioctl_result (- 1) 7" COM1 "(success, 4)" 4]
    ComSerial_ReadSome_availability [of "ioctl_result 0 4" COM1 "(success, 4)" 4]
  by (simp add: available_for_read_def)


section \<open>Timeout setters\<close>

lemma total_milliseconds_milliseconds: "total_milliseconds (milliseconds t) = uint t"
proof -
  have "uint t = 0 \<or> 0 < uint t"
    using uint_ge_0 [of t] by linarith
  then show ?thesis
    by (auto simp: total_milliseconds_def milliseconds_def sgn_if)
qed

text \<open>
  C5. Each of the five timeout setters (\<open>SetReadTimeout\<close> and \<open>SetWriteTimeout\<close> of
  both transports, \<open>ComSocket::SetOpenTimeout\<close>) rejects 0, returning false and leaving
  the object as it was, so that the getter still returns the previous value; for every
  \<open>t > 0\<close> it returns true and the getter then returns \<open>t\<close>.
\<close>

theorem timeout_setters:
  "(t = 0 \<longrightarrow>
      ComSerial_SetReadTimeout t s = (False, s) \<and>
      ComSerial_SetWriteTimeout t s = (False, s) \<and>
      ComSocket_SetReadTimeout t k = (False, k) \<and>
      ComSocket_SetWriteTimeout t k = (False, k) \<and>
      ComSocket_SetOpenTimeout t k = (False, k)) \<and>
   (0 < t \<longrightarrow>
      fst (ComSerial_SetReadTimeout t s) \<and>
      ComSerial_GetReadTimeout (snd (ComSerial_SetReadTimeout t s)) = t \<and>
      fst (ComSerial_SetWriteTimeout t s) \<and>
      ComSerial_GetWriteTimeout (snd (ComSerial_SetWriteTimeout t s)) = t \<and>
      fst (ComSocket_SetReadTimeout t k) \<and>
      ComSocket_GetReadTimeout (snd (ComSocket_SetReadTimeout t k)) = t \<and>
      fst (ComSocket_SetWriteTimeout t k) \<and>
      ComSocket_GetWriteTimeout (snd (ComSocket_SetWriteTimeout t k)) = t \<and>
      fst (ComSocket_SetOpenTimeout t k) \<and>
      ComSocket_GetOpenTimeout (snd (ComSocket_SetOpenTimeout t k)) = t)"
  by (simp add: ComSerial_SetReadTimeout_def ComSerial_SetWriteTimeout_def
      ComSocket_SetReadTimeout_def ComSocket_SetWriteTimeout_def ComSocket_SetOpenTimeout_def
      ComSerial_GetReadTimeout_def ComSerial_GetWriteTimeout_def
      ComSocket_GetReadTimeout_def ComSocket_GetWriteTimeout_def ComSocket_GetOpenTimeout_def
      total_milliseconds_milliseconds word_greater_zero_iff)

text \<open>
  On the example objects, whose timeouts are 1000 ms: 0 is refused and 1000 is still
  read back; 10000 is stored and read back.
\<close>

theorem timeout_setters_witness:
  "ComSerial_SetReadTimeout 0 COM1 = (False, COM1) \<and>
   ComSerial_GetReadTimeout (snd (ComSerial_SetReadTimeout 0 COM1)) = 1000 \<and>
   ComSocket_SetOpenTimeout 0 server_3444 = (False, server_3444) \<and>
   ComSocket_GetOpenTimeout (snd (ComSocket_SetOpenTimeout 0 server_3444)) = 1000 \<and>
   (0 :: 32 word) < 10000 \<and>
   fst (ComSocket_SetOpenTimeout 10000 server_3444) \<and>
   ComSocket_GetOpenTimeout (snd (ComSocket_SetOpenTimeout 10000 server_3444)) = 10000 \<and>
   ComSerial_GetWriteTimeout (snd (ComSerial_SetWriteTimeout 10000 COM1)) = 10000"
  using timeout_setters [of 0 COM1 server_3444] timeout_setters [of 10000 COM1 server_3444]
  by (simp add: ComSerial_GetReadTimeout_def ComSocket_GetOpenTimeout_def COM1_def COM1_new_def
      server_3444_def client_3444_def total_milliseconds_def)


section \<open>Close\<close>

text \<open>
  C8. On either transport, \<open>Close\<close> on a closed object returns true and leaves the
  object, its log of calls included, as it was. Since a \<open>close\<close> marks the handle
  closed whatever it reports, a second \<open>Close\<close> in a row returns true and does nothing,
  whatever the first one returned.
\<close>

theorem Close_twice:
  "(\<not> ComSerial_Opened s \<longrightarrow> ComSerial_Close ec s = (True, s)) \<and>
   (\<not> ComSocket_Opened k \<longrightarrow> ComSocket_Close ec k = (True, k)) \<and>
   ComSerial_Close ec_second (snd (ComSerial_Close ec_first s)) =
     (True, snd (ComSerial_Close ec_first s)) \<and>
   ComSocket_Close ec_second (snd (ComSocket_Close ec_first k)) =
     (True, snd (ComSocket_Close ec_first k))"
  by (simp add: ComSerial_Close_def ComSocket_Close_def ComSerial_Opened_def
      ComSocket_Opened_def serial_close_def socket_close'_def serial_call_def socket_call_def)

text \<open>
  The closed example objects, and the open port whose first \<open>Close\<close> fails and whose
  second succeeds.
\<close>

theorem Close_twice_witness:
  "\<not> ComSerial_Opened COM1_new \<and>
   ComSerial_Close (system_error 5) COM1_new = (True, COM1_new) \<and>
   \<not> ComSocket_Opened client_3444 \<and>
   ComSocket_Close (system_error 5) client_3444 = (True, client_3444) \<and>
   fst (ComSerial_Close (system_error 5) COM1) = False \<and>
   fst (ComSerial_Close (system_error 5) (snd (ComSerial_Close (system_error 5) COM1))) = True"
  using Close_twice [where s = COM1_new and k = client_3444 and ec = "system_error 5"
      and ec_first = "system_error 5" and ec_second = "system_error 5"]
    Close_twice [where s = COM1 and k = client_3444 and ec = "system_error 5"
      and ec_first = "system_error 5" and ec_second = "system_error 5"]
  by (simp add: ComSerial_Opened_def ComSocket_Opened_def COM1_new_def client_3444_def
      ComSerial_Close_def COM1_def)


section \<open>The serial line configuration\<close>

subsection \<open>Parity codes\<close>

text \<open>
  No setter of the configuration makes a call on the port or changes whether it is open,
  and the constructor body consists of such setters only: however it is left, normally or
  by a throw, no call has been made and the port is closed.
\<close>

lemma serial_setters_touch_nothing:
  "os_calls (snd (ComSerial_SetDevice d s)) = os_calls s \<and>
   m_port (snd (ComSerial_SetDevice d s)) = m_port s"
  "os_calls (snd (ComSerial_SetBaudRate w s)) = os_calls s \<and>
   m_port (snd (ComSerial_SetBaudRate w s)) = m_port s"
  "os_calls (snd (ComSerial_SetDataBits w s)) = os_calls s \<and>
   m_port (snd (ComSerial_SetDataBits w s)) = m_port s"
  "os_calls (snd (ComSerial_SetStopBits w s)) = os_calls s \<and>
   m_port (snd (ComSerial_SetStopBits w s)) = m_port s"
  "os_calls (snd (ComSerial_SetParity c s)) = os_calls s \<and>
   m_port (snd (ComSerial_SetParity c s)) = m_port s"
  "os_calls (snd (ComSerial_SetFlowControl c s)) = os_calls s \<and>
   m_port (snd (ComSerial_SetFlowControl c s)) = m_port s"
  "os_calls (snd (ComSerial_SetWriteTimeout w s)) = os_calls s \<and>
   m_port (snd (ComSerial_SetWriteTimeout w s)) = m_port s"
  "os_calls (snd (ComSerial_SetReadTimeout w s)) = os_calls s \<and>
   m_port (snd (ComSerial_SetReadTimeout w s)) = m_port s"
  by (simp_all add: serial_setter_defs enum_defs)

lemma throw_unless_preserves:
  assumes "P (snd r)" and "\<And>s. P s \<Longrightarrow> P (snd (k s))"
  shows "P (snd (throw_unless r msg k))"
  using assms by (simp add: throw_unless_def)

lemma ComSerial_ComSerial_touches_nothing:
  "os_calls (snd (ComSerial_ComSerial device baud_rate data_bits stop_bits parity
      flow_control timeout)) = [] \<and>
   \<not> m_port (snd (ComSerial_ComSerial device baud_rate data_bits stop_bits parity
      flow_control timeout))"
  unfolding ComSerial_ComSerial_def
  by (intro throw_unless_preserves [where P = "\<lambda>s. os_calls s = [] \<and> \<not> m_port s"])
     (simp_all add: serial_setters_touch_nothing ComSerial_members_def)

lemma ComSerial_ComSerial_rejected_parity:
  "parity \<notin> {CHR ''e'', CHR ''E'', CHR ''o'', CHR ''O'', CHR ''n'', CHR ''N''} \<Longrightarrow>
   fst (ComSerial_ComSerial device baud_rate data_bits stop_bits parity flow_control timeout)
     \<in> {Some (std_invalid_argument ''invalid device name''),
        Some (std_invalid_argument ''invalid baud rate''),
        Some (std_invalid_argument ''invalid data bits value''),
        Some (std_invalid_argument ''invalid stop bits value''),
        Some (std_invalid_argument ''invalid parity value'')}"
  by (simp add: ComSerial_ComSerial_def throw_unless_def ComSerial_SetParity_def
      store_parity_def boost_parity_def enum_defs)

text \<open>
  C7. \<open>ComSerial::SetParity\<close> returns true for \<open>'e'\<close>, \<open>'o'\<close>, \<open>'n'\<close> and also
  for the upper-case \<open>'E'\<close>, \<open>'O'\<close>, \<open>'N'\<close>, and false for every other character.
  It makes no call on the port, and a rejected value leaves the object as it was. Given
  to the constructor, a rejected value makes the construction fail: the constructor
  body is left by the throw of \<open>std::invalid_argument\<close> at the parity check or at one
  of the four checks before it, no object exists, and when the body is left no call has
  been made on the port, which is closed.
\<close>

theorem ComSerial_SetParity_accepts:
  "(fst (ComSerial_SetParity parity s) \<longleftrightarrow>
      parity \<in> {CHR ''e'', CHR ''E'', CHR ''o'', CHR ''O'', CHR ''n'', CHR ''N''}) \<and>
   os_calls (snd (ComSerial_SetParity parity s)) = os_calls s \<and>
   m_port (snd (ComSerial_SetParity parity s)) = m_port s \<and>
   (\<not> fst (ComSerial_SetParity parity s) \<longrightarrow>
      snd (ComSerial_SetParity parity s) = s \<and>
      isl (ComSerial_new device baud_rate data_bits stop_bits parity flow_control timeout) \<and>
      fst (ComSerial_ComSerial device baud_rate data_bits stop_bits parity flow_control timeout)
        \<in> {Some (std_invalid_argument ''invalid device name''),
           Some (std_invalid_argument ''invalid baud rate''),
           Some (std_invalid_argument ''invalid data bits value''),
           Some (std_invalid_argument ''invalid stop bits value''),
           Some (std_invalid_argument ''invalid parity value'')} \<and>
      os_calls (snd (ComSerial_ComSerial device baud_rate data_bits stop_bits parity
        flow_control timeout)) = [] \<and>
      \<not> m_port (snd (ComSerial_ComSerial device baud_rate data_bits stop_bits parity
        flow_control timeout)))"
proof -
  have accepted: "fst (ComSerial_SetParity parity s') \<longleftrightarrow>
      parity \<in> {CHR ''e'', CHR ''E'', CHR ''o'', CHR ''O'', CHR ''n'', CHR ''N''}" for s'
    by (simp add: ComSerial_SetParity_def store_parity_def boost_parity_def enum_defs)
  have unchanged: "snd (ComSerial_SetParity parity s) = s"
    if "\<not> fst (ComSerial_SetParity parity s)"
    using that
    by (simp add: ComSerial_SetParity_def store_parity_def boost_parity_def enum_defs
        split: if_splits)
  have thrown: "isl (ComSerial_new device baud_rate data_bits stop_bits parity flow_control
      timeout)" if "\<not> fst (ComSerial_SetParity parity s)"
    using that accepted [of s] accepted
    by (simp add: ComSerial_new_require require_def)
  have which: "fst (ComSerial_ComSerial device baud_rate data_bits stop_bits parity
      flow_control timeout)
        \<in> {Some (std_invalid_argument ''invalid device name''),
           Some (std_invalid_argument ''invalid baud rate''),
           Some (std_invalid_argument ''invalid data bits value''),
           Some (std_invalid_argument ''invalid stop bits value''),
           Some (std_invalid_argument ''invalid parity value'')}"
    if "\<not> fst (ComSerial_SetParity parity s)"
    using that accepted [of s]
    by (intro ComSerial_ComSerial_rejected_parity) simp
  show ?thesis
    using accepted [of s] unchanged thrown which
      serial_setters_touch_nothing(5) [of parity s]
      ComSerial_ComSerial_touches_nothing
        [of device baud_rate data_bits stop_bits parity flow_control timeout]
    by blast
qed

text \<open>
  \<open>'x'\<close> is refused by the setter and by the constructor, which throws "invalid parity
  value" when the arguments before it are valid, having made no call on the port;
  \<open>'o'\<close> is accepted.
\<close>

theorem ComSerial_SetParity_accepts_witness:
  "\<not> fst (ComSerial_SetParity (CHR ''x'') COM1) \<and>
   snd (ComSerial_SetParity (CHR ''x'') COM1) = COM1 \<and>
   ComSerial_new ''COM1'' 38400 8 1 (CHR ''x'') (CHR ''h'') 1000 =
     Inl (std_invalid_argument ''invalid parity value'') \<and>
   os_calls (snd (ComSerial_ComSerial ''COM1'' 38400 8 1 (CHR ''x'') (CHR ''h'') 1000)) = [] \<and>
   \<not> m_port (snd (ComSerial_ComSerial ''COM1'' 38400 8 1 (CHR ''x'') (CHR ''h'') 1000)) \<and>
   fst (ComSerial_SetParity (CHR ''o'') COM1)"
  using ComSerial_SetParity_accepts [of "CHR ''x''" COM1 "''COM1''" 38400 8 1 "CHR ''h''" 1000]
    ComSerial_SetParity_accepts [of "CHR ''o''" COM1 "''COM1''" 38400 8 1 "CHR ''h''" 1000]
  by (simp add: ComSerial_new_require require_def serial_setter_defs enum_defs)

text \<open>
  \<open>'E'\<close> is none of \<open>'e'\<close>, \<open>'o'\<close>, \<open>'n'\<close>, yet \<open>SetParity('E')\<close> returns true and
  stores even parity.
\<close>

theorem ComSerial_SetParity_upper_case_counterexample:
  "CHR ''E'' \<notin> {CHR ''e'', CHR ''o'', CHR ''n''} \<and>
   fst (ComSerial_SetParity (CHR ''E'') COM1_new) \<and>
   ComSerial_GetParity (snd (ComSerial_SetParity (CHR ''E'') COM1_new)) = CHR ''e''"
  by (simp add: ComSerial_SetParity_def store_parity_def boost_parity_def enum_defs
      ComSerial_GetParity_def)

subsection \<open>The stored options are enumerators\<close>

lemma line_config_valid_getters:
  "line_config_valid s \<Longrightarrow>
     ComSerial_GetStopBits s \<in> {1, 2, 3} \<and>
     ComSerial_GetParity s \<in> {CHR ''e'', CHR ''o'', CHR ''n''} \<and>
     ComSerial_GetFlowControl s \<in> {CHR ''h'', CHR ''s'', CHR ''n''}"
  by (auto simp: line_config_valid_def ComSerial_GetStopBits_def ComSerial_GetParity_def
      ComSerial_GetFlowControl_def enum_defs)

lemma line_config_valid_other_members [simp]:
  "line_config_valid (s\<lparr>os_calls := cs\<rparr>) = line_config_valid s"
  "line_config_valid (s\<lparr>m_port := b\<rparr>) = line_config_valid s"
  "line_config_valid (s\<lparr>m_write_timeout := d\<rparr>) = line_config_valid s"
  "line_config_valid (s\<lparr>m_read_timeout := d\<rparr>) = line_config_valid s"
  "line_config_valid (s\<lparr>m_device := dev\<rparr>) = line_config_valid s"
  "line_config_valid (s\<lparr>m_baud_rate := w\<rparr>) = line_config_valid s"
  "line_config_valid (s\<lparr>m_data_bits := w\<rparr>) = line_config_valid s"
  by (simp_all add: line_config_valid_def)

lemma line_config_valid_serial_call [simp]:
  "line_config_valid (serial_call c s) = line_config_valid s"
  "line_config_valid (serial_close s) = line_config_valid s"
  by (simp_all add: serial_call_def serial_close_def)

lemma line_config_valid_Open:
  "line_config_valid s \<Longrightarrow> line_config_valid (snd (ComSerial_Open env s))"
  by (cases "set_options env")
     (simp_all add: ComSerial_Open_def claim_exclusive_def set_options_try_def Let_def
        split: exclusive_access.splits)

lemma line_config_valid_Close:
  "line_config_valid s \<Longrightarrow> line_config_valid (snd (ComSerial_Close ec s))"
  by (simp add: ComSerial_Close_def)

lemma line_config_valid_ReadSome:
  "line_config_valid s \<Longrightarrow> line_config_valid (snd (ComSerial_ReadSome q io len s))"
  by (simp add: ComSerial_ReadSome_def available_for_read_def split: queue_query.splits)

lemma line_config_valid_WriteSome:
  "line_config_valid s \<Longrightarrow> line_config_valid (snd (ComSerial_WriteSome q io len s))"
  by (simp add: ComSerial_WriteSome_def pending_for_write_def split: queue_query.splits)

lemma line_config_valid_run:
  "line_config_valid s \<Longrightarrow>
   line_config_valid (snd (io_service_run (\<lambda>io. ComSerial_read_write_handler (fst io) (snd io))
       ComSerial_timeout_handler r s))"
  by (simp add: io_service_run_def ComSerial_read_write_handler_def
      ComSerial_timeout_handler_def split: race.splits)

lemma line_config_valid_Read:
  "line_config_valid s \<Longrightarrow> line_config_valid (snd (ComSerial_Read r run_error len s))"
  using line_config_valid_run
    [of "serial_call serial_port_async_read (serial_call timer_async_wait s)" r]
  by (simp add: ComSerial_Read_def case_prod_beta)

lemma line_config_valid_Write:
  "line_config_valid s \<Longrightarrow> line_config_valid (snd (ComSerial_Write r run_error len s))"
  using line_config_valid_run
    [of "serial_call serial_port_async_write (serial_call timer_async_wait s)" r]
  by (simp add: ComSerial_Write_def case_prod_beta)

lemma line_config_valid_setters:
  assumes "line_config_valid s"
  shows "line_config_valid (snd (ComSerial_SetWriteTimeout t s))"
    and "line_config_valid (snd (ComSerial_SetReadTimeout t s))"
    and "line_config_valid (snd (ComSerial_SetDevice d s))"
    and "line_config_valid (snd (ComSerial_SetBaudRate b s))"
    and "line_config_valid (snd (ComSerial_SetDataBits b s))"
  using assms by (simp_all add: serial_setter_defs)

text \<open>
  The three setters of the line options either refuse their argument or store an
  enumerator.
\<close>

lemma line_config_valid_SetStopBits:
  "line_config_valid s \<Longrightarrow> line_config_valid (snd (ComSerial_SetStopBits b s))"
  by (simp add: ComSerial_SetStopBits_def store_stop_bits_def boost_stop_bits_def
      line_config_valid_def)

lemma line_config_valid_SetParity:
  "line_config_valid s \<Longrightarrow> line_config_valid (snd (ComSerial_SetParity p s))"
  by (simp add: ComSerial_SetParity_def store_parity_def boost_parity_def
      line_config_valid_def)

lemma line_config_valid_SetFlowControl:
  "line_config_valid s \<Longrightarrow> line_config_valid (snd (ComSerial_SetFlowControl f s))"
  by (simp add: ComSerial_SetFlowControl_def store_flow_control_def boost_flow_control_def
      line_config_valid_def)

lemma line_config_valid_Flush:
  "line_config_valid s \<Longrightarrow> line_config_valid (snd (ComSerial_Flush f s))"
  by (simp add: ComSerial_Flush_def split: flush_result.splits)

lemma line_config_valid_step:
  "line_config_valid s \<Longrightarrow> line_config_valid (serial_step s x)"
  by (cases x)
     (simp_all add: line_config_valid_Open line_config_valid_Close line_config_valid_ReadSome
        line_config_valid_WriteSome line_config_valid_Read line_config_valid_Write
        line_config_valid_setters line_config_valid_SetStopBits line_config_valid_SetParity
        line_config_valid_SetFlowControl line_config_valid_Flush ComSerial_Abort_def)

lemma line_config_valid_run_ops:
  "line_config_valid s \<Longrightarrow> line_config_valid (serial_run s ops)"
  unfolding serial_run_def
  by (induction ops arbitrary: s) (simp_all add: line_config_valid_step)

lemma require_Inr:
  "require r msg k = Inr x \<longleftrightarrow> fst r \<and> k (snd r) = Inr x"
  by (simp add: require_def)

lemma line_config_valid_new:
  assumes "ComSerial_new device baud_rate data_bits stop_bits parity flow_control timeout = Inr s"
  shows "line_config_valid s"
proof -
  have "line_config_valid ComSerial_members"
    by (simp add: line_config_valid_def ComSerial_members_def)
  with assms show ?thesis
    unfolding ComSerial_new_require require_Inr
    by (auto intro!: line_config_valid_setters line_config_valid_SetStopBits
        line_config_valid_SetParity line_config_valid_SetFlowControl)
qed

text \<open>
  C10. In every state of a \<open>ComSerial\<close> reached from a successful construction by any
  sequence of public operations, whatever the collaborators answer, \<open>GetStopBits\<close>
  returns 1, 2 or 3, \<open>GetParity\<close> returns \<open>'e'\<close>, \<open>'o'\<close> or \<open>'n'\<close>, and
  \<open>GetFlowControl\<close> returns \<open>'h'\<close>, \<open>'s'\<close> or \<open>'n'\<close>: the fallback values 0 and
  \<open>'\0'\<close> are never returned.
\<close>

theorem ComSerial_line_config_invariant:
  "ComSerial_new device baud_rate data_bits stop_bits parity flow_control timeout = Inr s0 \<Longrightarrow>
     ComSerial_GetStopBits (serial_run s0 ops) \<in> {1, 2, 3} \<and>
     ComSerial_GetParity (serial_run s0 ops) \<in> {CHR ''e'', CHR ''o'', CHR ''n''} \<and>
     ComSerial_GetFlowControl (serial_run s0 ops) \<in> {CHR ''h'', CHR ''s'', CHR ''n''}"
  by (intro line_config_valid_getters line_config_valid_run_ops line_config_valid_new)

text \<open>
  The example port, after two refused settings, three accepted ones and a \<open>Close\<close>.
\<close>

theorem ComSerial_line_config_invariant_witness:
  "ComSerial_new ''COM1'' 38400 8 1 (CHR ''n'') (CHR ''h'') 1000 = Inr COM1_new \<and>
   ComSerial_GetStopBits (serial_run COM1_new
      [op_SetStopBits 7, op_SetParity (CHR ''x''), op_SetParity (CHR ''E''),
       op_Close success, op_SetFlowControl (CHR ''S''), op_SetStopBits 3]) \<in> {1, 2, 3} \<and>
   ComSerial_GetParity (serial_run COM1_new
      [op_SetStopBits 7, op_SetParity (CHR ''x''), op_SetParity (CHR ''E''),
       op_Close success, op_SetFlowControl (CHR ''S''), op_SetStopBits 3]) \<in>
     {CHR ''e'', CHR ''o'', CHR ''n''} \<and>
   ComSerial_GetFlowControl (serial_run COM1_new
      [op_SetStopBits 7, op_SetParity (CHR ''x''), op_SetParity (CHR ''E''),
       op_Close success, op_SetFlowControl (CHR ''S''), op_SetStopBits 3]) \<in>
     {CHR ''h'', CHR ''s'', CHR ''n''}"
  using ComSerial_line_config_invariant [OF COM1_new_constructed] COM1_new_constructed
  by simp

lemma example_run_values:
  "ComSerial_GetStopBits (serial_run COM1_new
      [op_SetStopBits 7, op_SetParity (CHR ''x''), op_SetParity (CHR ''E''),
       op_Close success, op_SetFlowControl (CHR ''S''), op_SetStopBits 3]) = 3 \<and>
   ComSerial_GetParity (serial_run COM1_new
      [op_SetStopBits 7, op_SetParity (CHR ''x''), op_SetParity (CHR ''E''),
       op_Close success, op_SetFlowControl (CHR ''S''), op_SetStopBits 3]) = CHR ''e''"
  by (simp add: serial_run_def serial_setter_defs ComSerial_Close_def COM1_new_def enum_defs
      ComSerial_GetStopBits_def ComSerial_GetParity_def)


section \<open>Server mode and client mode of the socket\<close>

text \<open>\<open>Open\<close> chooses its branch by \<open>m_address.is_unspecified()\<close> alone.\<close>

lemma Open_unspecified_is_server:
  "is_unspecified (m_address s) \<Longrightarrow> opens_as_server env s"
  by (cases "acceptor_setup env"; cases "open_race env"; cases "m_socket s")
     (simp_all add: opens_as_server_def socket_calls_during_def socket_open_defs)

lemma Open_specified_is_client:
  "\<not> is_unspecified (m_address s) \<Longrightarrow> opens_as_client env s"
  by (cases "open_race env"; cases "m_socket s"; cases "socket_open_ec env = success")
     (simp_all add: opens_as_client_def socket_calls_during_def socket_open_defs Let_def)

lemma ComSocket_new_address:
  "ComSocket_new parse address port timeout = Inr k \<Longrightarrow>
     fst (ComSocket_SetAddress parse address ComSocket_members) \<and>
     m_address k = m_address (snd (ComSocket_SetAddress parse address ComSocket_members))"
  by (auto simp: ComSocket_new_def require_def ComSocket_SetPort_def
      ComSocket_SetOpenTimeout_def ComSocket_SetWriteTimeout_def ComSocket_SetReadTimeout_def
      split: if_splits)

text \<open>
  \<open>SetAddress\<close> assigns \<open>m_address\<close> on every path: a text that does not parse
  leaves the default-constructed address behind.
\<close>

lemma SetAddress_result:
  "ComSocket_SetAddress parse address s =
     (if address = [] then (True, s\<lparr>m_address := default_address\<rparr>)
      else case parse address of
             None \<Rightarrow> (False, s\<lparr>m_address := default_address\<rparr>)
           | Some a \<Rightarrow> (True, s\<lparr>m_address := a\<rparr>))"
  by (simp add: ComSocket_SetAddress_def from_string_def split: option.splits)

lemma is_unspecified_default: "is_unspecified default_address"
  by (simp add: is_unspecified_def default_address_def)

text \<open>
  How \<open>SetAddress\<close> and the constructor select the mode, for every parser. The address
  \<open>""\<close> is accepted and yields server mode. A non-empty address that parses to an
  address other than the unspecified one is accepted and yields client mode. A non-empty
  address that parses to the unspecified address is accepted and yields server mode. A
  non-empty address that does not parse is rejected: \<open>SetAddress\<close> returns false and
  the constructor throws "invalid IP address".
\<close>

lemma ComSocket_mode_selection:
  "fst (ComSocket_SetAddress parse [] s) \<and>
   opens_as_server env (snd (ComSocket_SetAddress parse [] s)) \<and>
   (ComSocket_new parse [] port timeout = Inr k \<longrightarrow> opens_as_server env k) \<and>
   (address \<noteq> [] \<and> parse address = Some a \<and> \<not> is_unspecified a \<longrightarrow>
      fst (ComSocket_SetAddress parse address s) \<and>
      opens_as_client env (snd (ComSocket_SetAddress parse address s)) \<and>
      (ComSocket_new parse address port timeout = Inr k \<longrightarrow> opens_as_client env k)) \<and>
   (address \<noteq> [] \<and> parse address = Some a \<and> is_unspecified a \<longrightarrow>
      fst (ComSocket_SetAddress parse address s) \<and>
      opens_as_server env (snd (ComSocket_SetAddress parse address s)) \<and>
      (ComSocket_new parse address port timeout = Inr k \<longrightarrow> opens_as_server env k)) \<and>
   (address \<noteq> [] \<and> parse address = None \<longrightarrow>
      \<not> fst (ComSocket_SetAddress parse address s) \<and>
      ComSocket_new parse address port timeout =
        Inl (std_invalid_argument ''invalid IP address''))"
proof -
  have server: "opens_as_server env (snd (ComSocket_SetAddress parse address s))"
    if "address \<noteq> []" "parse address = Some a" "is_unspecified a"
    using that by (intro Open_unspecified_is_server) (simp add: SetAddress_result)
  have server_new: "opens_as_server env k"
    if "address \<noteq> []" "parse address = Some a" "is_unspecified a"
      "ComSocket_new parse address port timeout = Inr k"
    using that ComSocket_new_address [OF that(4)]
    by (intro Open_unspecified_is_server) (simp add: SetAddress_result)
  have empty: "opens_as_server env (snd (ComSocket_SetAddress parse [] s))"
    by (rule Open_unspecified_is_server) (simp add: SetAddress_result is_unspecified_default)
  have empty_new: "opens_as_server env k" if "ComSocket_new parse [] port timeout = Inr k"
    using ComSocket_new_address [OF that]
    by (intro Open_unspecified_is_server) (simp add: SetAddress_result is_unspecified_default)
  have client: "opens_as_client env (snd (ComSocket_SetAddress parse address s))"
    if "address \<noteq> []" "parse address = Some a" "\<not> is_unspecified a"
    using that by (intro Open_specified_is_client) (simp add: SetAddress_result)
  have client_new: "opens_as_client env k"
    if "address \<noteq> []" "parse address = Some a" "\<not> is_unspecified a"
      "ComSocket_new parse address port timeout = Inr k"
    using that ComSocket_new_address [OF that(4)]
    by (intro Open_specified_is_client) (simp add: SetAddress_result)
  have rejected: "ComSocket_new parse address port timeout =
      Inl (std_invalid_argument ''invalid IP address'')"
    if "address \<noteq> []" "parse address = None"
    using that by (simp add: ComSocket_new_def require_def SetAddress_result)
  show ?thesis
    using empty empty_new client client_new server server_new rejected
    by (auto simp: SetAddress_result)
qed

text \<open>
  The two example sockets, and the text \<open>"COM1"\<close>, which is no address.
\<close>

lemma ComSocket_mode_selection_examples:
  "ComSocket_new literal_addresses [] 3444 1000 = Inr server_3444 \<and>
   opens_as_server open_times_out server_3444 \<and>
   ''192.168.1.100'' \<noteq> [] \<and>
   literal_addresses ''192.168.1.100'' = Some (address_v4 0xC0A80164) \<and>
   \<not> is_unspecified (address_v4 0xC0A80164) \<and>
   ComSocket_new literal_addresses ''192.168.1.100'' 3444 1000 = Inr client_3444 \<and>
   opens_as_client open_times_out client_3444 \<and>
   ''COM1'' \<noteq> [] \<and> literal_addresses ''COM1'' = None \<and>
   \<not> fst (ComSocket_SetAddress literal_addresses ''COM1'' client_3444) \<and>
   ComSocket_new literal_addresses ''COM1'' 3444 1000 =
     Inl (std_invalid_argument ''invalid IP address'')"
  using ComSocket_mode_selection [where parse = literal_addresses and env = open_times_out
      and s = client_3444 and port = 3444 and timeout = 1000 and k = server_3444
      and address = "''COM1''" and a = "address_v4 0"]
    ComSocket_mode_selection [where parse = literal_addresses and env = open_times_out
      and s = client_3444 and port = 3444 and timeout = 1000 and k = client_3444
      and address = "''192.168.1.100''" and a = "address_v4 0xC0A80164"]
    server_3444_constructed client_3444_constructed
  by (simp add: literal_addresses_def is_unspecified_def)

text \<open>
  C3. The address \<open>""\<close> is to yield server mode, every parsable non-empty address
  client mode, and an unparsable address is to be rejected, as the header documents
  ("If set to "", the use mode is server. Else, client mode."). On
  \<open>ComSocket("0.0.0.0", 3444, 1000)\<close> the code does otherwise: \<open>"0.0.0.0"\<close> is not
  empty and parses, the constructor succeeds, and the object it builds is the one built
  from \<open>""\<close>; its \<open>Open\<close> binds, listens, accepts the peer that connects, and never
  connects itself.
\<close>

theorem unspecified_literal_opens_as_server:
  "''0.0.0.0'' \<noteq> [] \<and>
   literal_addresses ''0.0.0.0'' = Some (address_v4 0) \<and>
   ComSocket_new literal_addresses ''0.0.0.0'' 3444 1000 = Inr server_3444 \<and>
   ComSocket_new literal_addresses [] 3444 1000 = Inr server_3444 \<and>
   ComSocket_Open open_succeeds server_3444 =
     (True, server_3444\<lparr>m_socket := True,
        os_calls' := [timer_async_wait, acceptor_open, acceptor_set_option, acceptor_bind,
                      acceptor_listen, acceptor_async_accept, timer_cancel, acceptor_close,
                      socket_non_blocking]\<rparr>) \<and>
   opens_as_server open_succeeds server_3444 \<and>
   \<not> opens_as_client open_succeeds server_3444"
proof -
  have "opens_as_server open_succeeds server_3444"
    by (rule Open_unspecified_is_server)
      (simp add: server_3444_def client_3444_def is_unspecified_def)
  moreover from this have "\<not> opens_as_client open_succeeds server_3444"
    by (auto simp: opens_as_server_def opens_as_client_def)
  moreover have "ComSocket_new literal_addresses ''0.0.0.0'' 3444 1000 = Inr server_3444"
    by (simp add: ComSocket_new_def require_def socket_setter_defs milliseconds_def
      ComSocket_members_def client_3444_def server_3444_def literal_addresses_def
      default_address_def)
  moreover have "ComSocket_Open open_succeeds server_3444 =
     (True, server_3444\<lparr>m_socket := True,
        os_calls' := [timer_async_wait, acceptor_open, acceptor_set_option, acceptor_bind,
                      acceptor_listen, acceptor_async_accept, timer_cancel, acceptor_close,
                      socket_non_blocking]\<rparr>)"
    by (simp add: open_succeeds_def server_3444_def client_3444_def is_unspecified_def
        socket_open_defs)
  ultimately show ?thesis
    by (simp add: literal_addresses_def server_3444_constructed)
qed

text \<open>
  C9. For a non-empty address text that parses to the unspecified address,
  \<open>SetAddress\<close> returns true, \<open>GetAddress\<close> then returns the empty string, which is
  not the text that was set, and \<open>Open\<close> takes the server branch.
\<close>

theorem unspecified_address_round_trip:
  "address \<noteq> [] \<Longrightarrow> parse address = Some a \<Longrightarrow> is_unspecified a \<Longrightarrow>
     fst (ComSocket_SetAddress parse address s) \<and>
     ComSocket_GetAddress to_string (snd (ComSocket_SetAddress parse address s)) = [] \<and>
     ComSocket_GetAddress to_string (snd (ComSocket_SetAddress parse address s)) \<noteq> address \<and>
     opens_as_server env (snd (ComSocket_SetAddress parse address s))"
  by (simp add: SetAddress_result ComSocket_GetAddress_def Open_unspecified_is_server)

text \<open>
  \<open>"0.0.0.0"\<close> and \<open>"::"\<close> set on the client socket; \<open>"127.0.0.1"\<close>, for
  comparison, is read back.
\<close>

theorem unspecified_address_round_trip_witness:
  "''0.0.0.0'' \<noteq> [] \<and> literal_addresses ''0.0.0.0'' = Some (address_v4 0) \<and>
   is_unspecified (address_v4 0) \<and>
   fst (ComSocket_SetAddress literal_addresses ''0.0.0.0'' client_3444) \<and>
   ComSocket_GetAddress literal_to_string
     (snd (ComSocket_SetAddress literal_addresses ''0.0.0.0'' client_3444)) = [] \<and>
   opens_as_server open_times_out
     (snd (ComSocket_SetAddress literal_addresses ''0.0.0.0'' client_3444)) \<and>
   literal_addresses ''::'' = Some (address_v6 0) \<and> is_unspecified (address_v6 0) \<and>
   ComSocket_GetAddress literal_to_string
     (snd (ComSocket_SetAddress literal_addresses ''::'' client_3444)) = [] \<and>
   opens_as_server open_times_out
     (snd (ComSocket_SetAddress literal_addresses ''::'' client_3444)) \<and>
   ComSocket_GetAddress literal_to_string
     (snd (ComSocket_SetAddress literal_addresses ''127.0.0.1'' client_3444)) = ''127.0.0.1''"
proof -
  have a: "literal_addresses ''0.0.0.0'' = Some (address_v4 0)"
    and b: "literal_addresses ''::'' = Some (address_v6 0)"
    by (simp_all add: literal_addresses_def)
  have c: "is_unspecified (address_v4 0)" "is_unspecified (address_v6 0)"
    by (simp_all add: is_unspecified_def)
  have d: "ComSocket_GetAddress literal_to_string
     (snd (ComSocket_SetAddress literal_addresses ''127.0.0.1'' client_3444)) = ''127.0.0.1''"
    by (simp add: SetAddress_result ComSocket_GetAddress_def literal_addresses_def
        literal_to_string_def is_unspecified_def)
  show ?thesis
    using unspecified_address_round_trip [where address = "''0.0.0.0''"
        and parse = literal_addresses and a = "address_v4 0" and s = client_3444
        and to_string = literal_to_string and env = open_times_out]
      unspecified_address_round_trip [where address = "''::''"
        and parse = literal_addresses and a = "address_v6 0" and s = client_3444
        and to_string = literal_to_string and env = open_times_out]
      a b c d
    by simp
qed


section \<open>The open deadline\<close>

text \<open>
  When the timer expires first and the pending action completes with
  \<open>operation_aborted\<close>, \<open>open_handler\<close> stores true. In the server branch the peer
  socket was never opened, \<open>non_blocking\<close> fails on it and \<open>Open\<close> returns false. In
  the client branch \<open>async_connect\<close> has opened the socket, \<open>non_blocking\<close> succeeds
  and \<open>Open\<close> returns true on a socket that is open and not connected.
\<close>

lemma Open_server_deadline:
  "is_unspecified (m_address s) \<Longrightarrow> open_race env = deadline_first operation_aborted \<Longrightarrow>
     \<not> fst (ComSocket_Open env s) \<and> \<not> ComSocket_Opened (snd (ComSocket_Open env s))"
  by (cases "acceptor_setup env"; cases "m_socket s")
     (simp_all add: socket_open_defs Let_def ComSocket_Opened_def)

lemma Open_client_deadline:
  "\<not> is_unspecified (m_address s) \<Longrightarrow> open_race env = deadline_first operation_aborted \<Longrightarrow>
   socket_open_ec env = success \<Longrightarrow> run_ec env = success \<Longrightarrow>
   non_blocking_ec env = success \<Longrightarrow>
     fst (ComSocket_Open env s) \<and> ComSocket_Opened (snd (ComSocket_Open env s)) \<and>
     socket_cancel \<in> set (socket_calls_during s (snd (ComSocket_Open env s)))"
  by (cases "m_socket s")
     (simp_all add: socket_calls_during_def socket_open_defs Let_def ComSocket_Opened_def)

lemma Open_server_timeout_returns_false:
  "ComSocket_Open open_times_out server_3444 =
     (False, server_3444\<lparr>
        os_calls' := [timer_async_wait, acceptor_open, acceptor_set_option, acceptor_bind,
                      acceptor_listen, acceptor_async_accept, acceptor_cancel, timer_cancel,
                      acceptor_close, socket_non_blocking, socket_close]\<rparr>)"
  by (simp add: open_times_out_def server_3444_def client_3444_def is_unspecified_def
      socket_open_defs)

text \<open>
  C1. An \<open>Open\<close> whose open-timeout elapses first is to return false. On
  \<open>ComSocket("192.168.1.100", 3444, 1000)\<close> with no peer answering, the timer expires,
  the connect is cancelled, and \<open>Open\<close> returns true, leaving the socket open.
\<close>

theorem Open_client_timeout_returns_true:
  "ComSocket_new literal_addresses ''192.168.1.100'' 3444 1000 = Inr client_3444 \<and>
   open_race open_times_out = deadline_first operation_aborted \<and>
   ComSocket_Open open_times_out client_3444 =
     (True, client_3444\<lparr>m_socket := True,
        os_calls' := [timer_async_wait, socket_async_connect, socket_open, socket_cancel,
                      timer_cancel, socket_non_blocking]\<rparr>)"
  by (simp add: client_3444_constructed)
     (simp add: open_times_out_def client_3444_def is_unspecified_def socket_open_defs)


section \<open>The transfer deadline\<close>

lemma int_of_size_t_small: "n < 2 ^ 31 \<Longrightarrow> int_of_size_t n = int n"
  unfolding int_of_size_t_def
  by (simp add: signed_of_nat signed_take_bit_int_eq_self take_bit_nat_eq_self)

lemmas transfer_defs =
  ComSocket_Read_def ComSocket_Write_def ComSerial_Read_def ComSerial_Write_def
  io_service_run_def ComSocket_read_write_handler_def ComSerial_read_write_handler_def
  ComSocket_timeout_handler_def ComSerial_timeout_handler_def socket_call_def serial_call_def

text \<open>
  The guard after \<open>run\<close>: when \<open>io_service::run\<close> reports an error of its own, each
  of the four blocking transfers returns \<open>-1\<close>, however the transfer ended against
  the timer and whatever its handler stored.
\<close>

lemma run_error_returns_minus_one:
  "run_error \<noteq> success \<Longrightarrow>
     fst (ComSerial_Read r run_error len s) = - 1 \<and>
     fst (ComSerial_Write r run_error len s) = - 1 \<and>
     fst (ComSocket_Read r run_error len k) = - 1 \<and>
     fst (ComSocket_Write r run_error len k) = - 1"
  by (simp add: ComSerial_Read_def ComSerial_Write_def ComSocket_Read_def ComSocket_Write_def
      case_prod_beta)

text \<open>
  C2. In a blocking \<open>Read\<close> or \<open>Write\<close> of either transport, when the timer expires
  first, the transfer is cancelled and completes with \<open>operation_aborted\<close> after \<open>n\<close>
  bytes, and \<open>io_service::run\<close> itself reports no error, the call returns \<open>n\<close> (for a
  count that an \<open>int\<close> holds), which is not \<open>-1\<close>: the cancellation is reported as
  the byte count and not as an error. When \<open>io_service::run\<close> reports an error of its
  own, the call returns \<open>-1\<close> whatever the handler stored.
\<close>

theorem deadline_reports_byte_count:
  "(run_error = success \<and> n < 2 ^ 31 \<longrightarrow>
     fst (ComSerial_Read (deadline_first (operation_aborted, n)) run_error len s) = int n \<and>
     fst (ComSerial_Write (deadline_first (operation_aborted, n)) run_error len s) = int n \<and>
     fst (ComSocket_Read (deadline_first (operation_aborted, n)) run_error len k) = int n \<and>
     fst (ComSocket_Write (deadline_first (operation_aborted, n)) run_error len k) = int n \<and>
     fst (ComSerial_Read (deadline_first (operation_aborted, n)) run_error len s) \<noteq> - 1 \<and>
     fst (ComSerial_Write (deadline_first (operation_aborted, n)) run_error len s) \<noteq> - 1 \<and>
     fst (ComSocket_Read (deadline_first (operation_aborted, n)) run_error len k) \<noteq> - 1 \<and>
     fst (ComSocket_Write (deadline_first (operation_aborted, n)) run_error len k) \<noteq> - 1 \<and>
     serial_port_cancel \<in> set (serial_calls_during s
       (snd (ComSerial_Read (deadline_first (operation_aborted, n)) run_error len s))) \<and>
     serial_port_cancel \<in> set (serial_calls_during s
       (snd (ComSerial_Write (deadline_first (operation_aborted, n)) run_error len s))) \<and>
     socket_cancel \<in> set (socket_calls_during k
       (snd (ComSocket_Read (deadline_first (operation_aborted, n)) run_error len k))) \<and>
     socket_cancel \<in> set (socket_calls_during k
       (snd (ComSocket_Write (deadline_first (operation_aborted, n)) run_error len k)))) \<and>
   (run_error \<noteq> success \<longrightarrow>
     fst (ComSerial_Read r run_error len s) = - 1 \<and>
     fst (ComSerial_Write r run_error len s) = - 1 \<and>
     fst (ComSocket_Read r run_error len k) = - 1 \<and>
     fst (ComSocket_Write r run_error len k) = - 1)"
proof -
  have counted: "?thesis" if "run_error = success"
    using that
    by (simp add: transfer_defs int_of_size_t_small serial_calls_during_def
        socket_calls_during_def)
  have failed: "?thesis" if "run_error \<noteq> success"
    using that run_error_returns_minus_one [OF that, of r len s k] by simp
  show ?thesis
    using counted failed by blast
qed

text \<open>
  Three of eight bytes read on the open port, and nothing written on the connected
  socket, when the deadline passes; and the same two transfers when \<open>run\<close> reports an
  error.
\<close>

theorem deadline_reports_byte_count_witness:
  "(3 :: nat) < 2 ^ 31 \<and>
   fst (ComSerial_Read (deadline_first (operation_aborted, 3)) success 8 COM1) = 3 \<and>
   fst (ComSocket_Write (deadline_first (operation_aborted, 0)) success 8
          client_3444_connected) = 0 \<and>
   system_error 5 \<noteq> success \<and>
   fst (ComSerial_Read (deadline_first (operation_aborted, 3)) (system_error 5) 8 COM1) = - 1 \<and>
   fst (ComSocket_Write (deadline_first (operation_aborted, 0)) (system_error 5) 8
          client_3444_connected) = - 1"
  using deadline_reports_byte_count [where run_error = success and n = 3 and len = 8
      and s = COM1 and k = client_3444_connected]
    deadline_reports_byte_count [where run_error = success and n = 0 and len = 8
      and s = COM1 and k = client_3444_connected]
    deadline_reports_byte_count [where run_error = "system_error 5" and n = 3 and len = 8
      and s = COM1 and k = client_3444_connected
      and r = "deadline_first (operation_aborted, 3)"]
    deadline_reports_byte_count [where run_error = "system_error 5" and n = 0 and len = 8
      and s = COM1 and k = client_3444_connected
      and r = "deadline_first (operation_aborted, 0)"]
  by simp

text \<open>
  The same expiry and cancellation after three bytes, with \<open>io_service::run\<close>
  reporting an error of its own: the guard after \<open>run\<close> replaces the count by \<open>-1\<close>.
\<close>

theorem run_error_after_deadline_counterexample:
  "fst (ComSerial_Read (deadline_first (operation_aborted, 3)) (system_error 5) 8 COM1) = - 1 \<and>
   serial_port_cancel \<in> set (serial_calls_during COM1
     (snd (ComSerial_Read (deadline_first (operation_aborted, 3)) (system_error 5) 8 COM1)))"
  by (simp add: transfer_defs serial_calls_during_def)

text \<open>
  A count above \<open>INT_MAX\<close> does not survive the conversion to \<open>int\<close> in the handler.
\<close>

lemma transferred_count_narrowing:
  "fst (ComSerial_Read (deadline_first (operation_aborted, 4294967295)) success 4294967295 COM1)
     = - 1"
  by (simp add: transfer_defs int_of_size_t_def)


end
